theory Spec2Isabelle
  imports Main
begin


section \<open>JavaScript values, strings and sets\<close>

text \<open>
  The payload fields of an inbound event are JSON values. Only their type and their
  truthiness are observed by the handlers, so a number is kept as an integer (zero is
  the falsy one) and every object or array is the one value \<open>JObj\<close>.
\<close>

datatype jsval = JUndefined | JNull | JBool bool | JNum int | JStr string | JObj

fun truthy :: "jsval \<Rightarrow> bool" where
  "truthy JUndefined = False"
| "truthy JNull = False"
| "truthy (JBool b) = b"
| "truthy (JNum n) = (n \<noteq> 0)"
| "truthy (JStr s) = (s \<noteq> [])"
| "truthy JObj = True"

text \<open>
  A \<open>char\<close> stands for a UTF-16 code unit below 256. The white space of
  \<open>String.prototype.trim\<close> and of the regular expression class \<open>\s\<close> in that range is
  TAB, LF, VT, FF, CR, SPACE and NBSP.
\<close>

definition is_ws :: "char \<Rightarrow> bool" where
  "is_ws c = (c \<in> set [CHR 0x09, CHR 0x0A, CHR 0x0B, CHR 0x0C, CHR 0x0D, CHR 0x20, CHR 0xA0])"

definition trim :: "string \<Rightarrow> string" where
  "trim s = rev (dropWhile is_ws (rev (dropWhile is_ws s)))"

text \<open>
  A JavaScript \<open>Set\<close> iterates in insertion order: it is a list without duplicates,
  \<open>add\<close> appends an absent element and \<open>delete\<close> removes the element.
\<close>

definition set_add :: "'a \<Rightarrow> 'a list \<Rightarrow> 'a list" where
  "set_add x xs = (if x \<in> set xs then xs else xs @ [x])"

definition set_delete :: "'a \<Rightarrow> 'a list \<Rightarrow> 'a list" where
  "set_delete x xs = removeAll x xs"

text \<open>\<open>Array.prototype.slice(-n)\<close>: the last \<open>n\<close> elements; \<open>slice(-0)\<close> is \<open>slice(0)\<close>, a full copy.\<close>

definition slice_last :: "nat \<Rightarrow> 'a list \<Rightarrow> 'a list" where
  "slice_last n xs = (if n = 0 then xs else drop (length xs - n) xs)"

section \<open>The data model\<close>

text \<open>
  Identifiers made by \<open>uuidv4()\<close> and socket ids are opaque tokens (in the source they
  are non-empty strings, so none of them is falsy); a time stamp is the clock reading of
  \<open>new Date()\<close>, one reading for each inbound event.
\<close>

type_synonym uuid = nat
type_synonym socket_id = nat
type_synonym timestamp = nat

text \<open>The user object \<open>{ id, username, room, socketId }\<close>.\<close>

record user =
  user_id :: uuid
  username :: string
  user_room :: string
  socketId :: socket_id

datatype msg_type = TUser | TSystem

text \<open>The message object \<open>{ id, username, message, timestamp, type }\<close>.\<close>

record message =
  msg_id :: uuid
  msg_username :: string
  msg_message :: string
  msg_timestamp :: timestamp
  msg_type :: msg_type

text \<open>The room object \<open>{ users: Set(), messages: [] }\<close>.\<close>

record room =
  room_users :: "uuid list"
  room_messages :: "message list"

text \<open>The global \<open>storage\<close>: four maps.\<close>

record ('u, 'r) storage =
  users :: "uuid \<rightharpoonup> 'u"
  rooms :: "string \<rightharpoonup> 'r"
  sockets :: "socket_id \<rightharpoonup> uuid"
  typingUsers :: "string \<rightharpoonup> uuid list"

section \<open>StorageUtils\<close>

text \<open>\<open>addUser\<close> of server.js.\<close>

definition addUser :: "uuid \<Rightarrow> string \<Rightarrow> string \<Rightarrow> socket_id \<Rightarrow> (user, room) storage
    \<Rightarrow> user \<times> (user, room) storage" where
  "addUser userId uname rname sid st =
    (let u = \<lparr>user_id = userId, username = uname, user_room = rname, socketId = sid\<rparr>;
         st1 = st\<lparr>users := (users st)(userId \<mapsto> u)\<rparr>;
         st2 = st1\<lparr>sockets := (sockets st1)(sid \<mapsto> userId)\<rparr>;
         st3 = (if rooms st2 rname = None
                then st2\<lparr>rooms := (rooms st2)(rname \<mapsto> \<lparr>room_users = [], room_messages = []\<rparr>)\<rparr>
                else st2);
         st4 = (case rooms st3 rname of
                  None \<Rightarrow> st3
                | Some r \<Rightarrow> st3\<lparr>rooms := (rooms st3)(rname \<mapsto> r\<lparr>room_users := set_add userId (room_users r)\<rparr>)\<rparr>)
     in (u, st4))"

text \<open>
  \<open>removeUser\<close>, \<open>getUserBySocketId\<close>, \<open>getUsersInRoom\<close>, \<open>getRoomMessages\<close> and
  \<open>setTyping\<close> have the same text in server.js and server-secure.js; they are defined
  once, for any extension of the user and room objects.
\<close>

definition removeUser :: "socket_id \<Rightarrow> ('a user_scheme, 'b room_scheme, 'c) storage_scheme
    \<Rightarrow> 'a user_scheme option \<times> ('a user_scheme, 'b room_scheme, 'c) storage_scheme" where
  "removeUser sid st =
    (case sockets st sid of
       None \<Rightarrow> (None, st)
     | Some userId \<Rightarrow>
        (case users st userId of
           None \<Rightarrow> (None, st)
         | Some u \<Rightarrow>
            (let st1 = (case rooms st (user_room u) of
                          None \<Rightarrow> st
                        | Some r \<Rightarrow>
                           (let sa = st\<lparr>rooms := (rooms st)(user_room u \<mapsto>
                                           r\<lparr>room_users := set_delete userId (room_users r)\<rparr>)\<rparr>
                            in case typingUsers sa (user_room u) of
                                 None \<Rightarrow> sa
                               | Some t \<Rightarrow> sa\<lparr>typingUsers := (typingUsers sa)(user_room u \<mapsto>
                                             set_delete userId t)\<rparr>));
                 st2 = st1\<lparr>users := (users st1)(userId := None)\<rparr>;
                 st3 = st2\<lparr>sockets := (sockets st2)(sid := None)\<rparr>
             in (Some u, st3))))"

definition getUserBySocketId :: "socket_id \<Rightarrow> ('u, 'r, 'c) storage_scheme \<Rightarrow> 'u option" where
  "getUserBySocketId sid st =
    (case sockets st sid of None \<Rightarrow> None | Some userId \<Rightarrow> users st userId)"

definition getUsersInRoom :: "string \<Rightarrow> ('u, 'b room_scheme, 'c) storage_scheme \<Rightarrow> 'u list" where
  "getUsersInRoom roomName st =
    (case rooms st roomName of
       None \<Rightarrow> []
     | Some r \<Rightarrow> List.map_filter (users st) (room_users r))"

text \<open>
  \<open>addMessage\<close> of server.js, with the literal 100 of its two occurrences as the
  parameter \<open>cap\<close>.
\<close>

definition addMessage_cap :: "nat \<Rightarrow> string \<Rightarrow> message \<Rightarrow> ('u, room, 'c) storage_scheme
    \<Rightarrow> ('u, room, 'c) storage_scheme" where
  "addMessage_cap cap roomName m st =
    (case rooms st roomName of
       None \<Rightarrow> st
     | Some r \<Rightarrow>
        (let ms = room_messages r @ [m];
             ms' = (if length ms > cap then slice_last cap ms else ms)
         in st\<lparr>rooms := (rooms st)(roomName \<mapsto> r\<lparr>room_messages := ms'\<rparr>)\<rparr>))"

definition addMessage :: "string \<Rightarrow> message \<Rightarrow> (user, room) storage \<Rightarrow> (user, room) storage" where
  "addMessage = addMessage_cap 100"

definition getRoomMessages :: "string \<Rightarrow> ('u, 'b room_scheme, 'c) storage_scheme \<Rightarrow> message list" where
  "getRoomMessages roomName st =
    (case rooms st roomName of None \<Rightarrow> [] | Some r \<Rightarrow> room_messages r)"

definition setTyping :: "uuid \<Rightarrow> string \<Rightarrow> bool \<Rightarrow> ('u, 'r, 'c) storage_scheme
    \<Rightarrow> 'u list \<times> ('u, 'r, 'c) storage_scheme" where
  "setTyping userId roomName isTyping st =
    (let st1 = (if typingUsers st roomName = None
                then st\<lparr>typingUsers := (typingUsers st)(roomName \<mapsto> [])\<rparr>
                else st);
         typingInRoom = (case typingUsers st1 roomName of None \<Rightarrow> [] | Some t \<Rightarrow> t);
         typingInRoom' = (if isTyping then set_add userId typingInRoom
                          else set_delete userId typingInRoom);
         st2 = st1\<lparr>typingUsers := (typingUsers st1)(roomName \<mapsto> typingInRoom')\<rparr>
     in (List.map_filter (users st2) typingInRoom', st2))"

section \<open>Outbound events and the socket.io rooms\<close>

text \<open>
  The transport is used in three ways: \<open>socket.emit\<close> (to the sender's connection),
  \<open>socket.to(room).emit\<close> (to the connections joined to the room, the sender left out) and
  \<open>io.to(room).emit\<close> (to all connections joined to the room). The connections joined to a
  room are kept by the transport (\<open>socket.join\<close>, \<open>socket.leave\<close>), apart from the storage.
  An emission records its target and the connections that the target denotes when it is
  sent. The room that the transport gives each connection under its own id is left out:
  room names and socket ids are of different types.
\<close>

datatype target = ToSocket socket_id | ToOthers string socket_id | ToRoom string

datatype 'u payload =
    EvMessage message
  | EvRoomHistory "message list"
  | EvOnlineUsers "'u list"
  | EvTyping "'u list"
  | EvLeftRoom
  | EvError string

record 'u emission =
  em_target :: target
  em_receivers :: "socket_id set"
  em_payload :: "'u payload"

record 's world =
  storage :: 's
  sio :: "string \<Rightarrow> socket_id set"
  uuid_next :: nat
  alive :: bool

fun receivers :: "(string \<Rightarrow> socket_id set) \<Rightarrow> target \<Rightarrow> socket_id set" where
  "receivers a (ToSocket s) = {s}"
| "receivers a (ToOthers r s) = a r - {s}"
| "receivers a (ToRoom r) = a r"

definition emit :: "target \<Rightarrow> 'u payload \<Rightarrow> ('s, 'z) world_scheme \<Rightarrow> 'u emission" where
  "emit t p w = \<lparr>em_target = t, em_receivers = receivers (sio w) t, em_payload = p\<rparr>"

text \<open>\<open>uuidv4()\<close> is a supply of fresh identifiers: a counter.\<close>

definition uuidv4 :: "('s, 'z) world_scheme \<Rightarrow> uuid \<times> ('s, 'z) world_scheme" where
  "uuidv4 w = (uuid_next w, w\<lparr>uuid_next := Suc (uuid_next w)\<rparr>)"

definition socket_join :: "socket_id \<Rightarrow> string \<Rightarrow> ('s, 'z) world_scheme \<Rightarrow> ('s, 'z) world_scheme" where
  "socket_join sid r w = w\<lparr>sio := (sio w)(r := insert sid (sio w r))\<rparr>"

definition socket_leave :: "socket_id \<Rightarrow> string \<Rightarrow> ('s, 'z) world_scheme \<Rightarrow> ('s, 'z) world_scheme" where
  "socket_leave sid r w = w\<lparr>sio := (sio w)(r := sio w r - {sid})\<rparr>"

text \<open>A connection that closes leaves every room before its \<open>disconnect\<close> listeners run.\<close>

definition socket_leave_all :: "socket_id \<Rightarrow> ('s, 'z) world_scheme \<Rightarrow> ('s, 'z) world_scheme" where
  "socket_leave_all sid w = w\<lparr>sio := (\<lambda>r. sio w r - {sid})\<rparr>"

definition system_message :: "uuid \<Rightarrow> string \<Rightarrow> timestamp \<Rightarrow> message" where
  "system_message i txt now =
     \<lparr>msg_id = i, msg_username = ''System'', msg_message = txt, msg_timestamp = now,
      msg_type = TSystem\<rparr>"

text \<open>
  The argument of an inbound event, as the parameter pattern of a listener meets it. The
  listeners of joinRoom, sendMessage and typing take their argument with a destructuring
  pattern, \<open>({ username, room })\<close>, \<open>({ message })\<close> and \<open>({ isTyping })\<close>, which stands
  in the parameter list and so outside the \<open>try\<close> of the body. An argument that is
  \<open>undefined\<close> (none was sent) or \<open>null\<close> cannot be destructured: the pattern throws a
  TypeError. From any other argument the pattern binds the values of the properties it
  names, \<open>undefined\<close> for a property that is missing.
\<close>

datatype 'a arg = Absent | Given 'a

text \<open>
  Neither server installs a handler for uncaught exceptions: an exception that leaves a
  listener ends the process. A process that has ended runs no listener any more; its
  state is kept as it was at that moment, with \<open>alive\<close> false.
\<close>

definition uncaught :: "('s, 'z) world_scheme \<Rightarrow> ('s, 'z) world_scheme \<times> 'e list" where
  "uncaught w = (w\<lparr>alive := False\<rparr>, [])"

section \<open>The handlers of server.js\<close>

type_synonym pworld = "(user, room) storage world"

text \<open>
  \<open>joinRoom\<close>: \<open>on_joinRoom\<close> is the body of the listener, its \<open>try\<close> and \<open>catch\<close>, on
  the fields \<open>username\<close> and \<open>room\<close> that the parameter pattern has bound. A truthy field
  that is not a string has no \<open>trim\<close> method: the call throws inside the \<open>try\<close>, after
  \<open>uuidv4()\<close> and before \<open>addUser\<close>, and the \<open>catch\<close> answers.
\<close>

definition on_joinRoom :: "timestamp \<Rightarrow> socket_id \<Rightarrow> jsval \<Rightarrow> jsval \<Rightarrow> pworld
    \<Rightarrow> pworld \<times> user emission list" where
  "on_joinRoom now sid uname rname w =
    (if \<not> truthy uname \<or> \<not> truthy rname
     then (w, [emit (ToSocket sid) (EvError ''Username and room are required'') w])
     else
       (let (userId, w1) = uuidv4 w in
        case (uname, rname) of
          (JStr un, JStr rn) \<Rightarrow>
            (let (u, st) = addUser userId (trim un) (trim rn) sid (storage w1);
                 w2 = socket_join sid rn (w1\<lparr>storage := st\<rparr>);
                 (i1, w3) = uuidv4 w2;
                 e1 = emit (ToSocket sid)
                        (EvMessage (system_message i1 (''Welcome to '' @ rn @ '', '' @ un @ ''!'') now)) w3;
                 (i2, w4) = uuidv4 w3;
                 e2 = emit (ToOthers rn sid)
                        (EvMessage (system_message i2 (un @ '' has joined the chat'') now)) w4;
                 e3 = emit (ToSocket sid) (EvRoomHistory (getRoomMessages rn (storage w4))) w4;
                 e4 = emit (ToRoom rn) (EvOnlineUsers (getUsersInRoom rn (storage w4))) w4
             in (w4, [e1, e2, e3, e4]))
        | _ \<Rightarrow> (w1, [emit (ToSocket sid) (EvError ''Failed to join room'') w1])))"

text \<open>The listener of joinRoom: the parameter pattern, then the body.\<close>

definition joinRoom_listener :: "timestamp \<Rightarrow> socket_id \<Rightarrow> (jsval \<times> jsval) arg \<Rightarrow> pworld
    \<Rightarrow> pworld \<times> user emission list" where
  "joinRoom_listener now sid a w =
    (case a of
       Absent \<Rightarrow> uncaught w
     | Given (uname, rname) \<Rightarrow> on_joinRoom now sid uname rname w)"

text \<open>The body of the sendMessage listener, its \<open>try\<close> and \<open>catch\<close>, on the field
  \<open>message\<close>; the capacity of \<open>addMessage\<close> is a parameter.\<close>

definition sendMessage_try_cap :: "nat \<Rightarrow> timestamp \<Rightarrow> socket_id \<Rightarrow> jsval \<Rightarrow> pworld
    \<Rightarrow> pworld \<times> user emission list" where
  "sendMessage_try_cap cap now sid msg w =
    (case getUserBySocketId sid (storage w) of
       None \<Rightarrow> (w, [emit (ToSocket sid) (EvError ''User not found'') w])
     | Some u \<Rightarrow>
        (if \<not> truthy msg
         then (w, [emit (ToSocket sid) (EvError ''Message cannot be empty'') w])
         else case msg of
           JStr m \<Rightarrow>
             (if trim m = []
              then (w, [emit (ToSocket sid) (EvError ''Message cannot be empty'') w])
              else
                (let (i, w1) = uuidv4 w;
                     messageObj = \<lparr>msg_id = i, msg_username = username u, msg_message = trim m,
                                   msg_timestamp = now, msg_type = TUser\<rparr>;
                     w2 = w1\<lparr>storage := addMessage_cap cap (user_room u) messageObj (storage w1)\<rparr>
                 in (w2, [emit (ToRoom (user_room u)) (EvMessage messageObj) w2])))
         | _ \<Rightarrow> (w, [emit (ToSocket sid) (EvError ''Failed to send message'') w])))"

text \<open>
  The listener of sendMessage, \<open>socket.on('sendMessage', ({ message }) => { try ... })\<close>:
  the parameter pattern, which throws on an argument that is absent, then the body.
\<close>

definition on_sendMessage_cap :: "nat \<Rightarrow> timestamp \<Rightarrow> socket_id \<Rightarrow> jsval arg \<Rightarrow> pworld
    \<Rightarrow> pworld \<times> user emission list" where
  "on_sendMessage_cap cap now sid a w =
    (case a of
       Absent \<Rightarrow> uncaught w
     | Given msg \<Rightarrow> sendMessage_try_cap cap now sid msg w)"

definition on_sendMessage :: "timestamp \<Rightarrow> socket_id \<Rightarrow> jsval arg \<Rightarrow> pworld
    \<Rightarrow> pworld \<times> user emission list" where
  "on_sendMessage = on_sendMessage_cap 100"

text \<open>The body of the typing listener, its \<open>try\<close> and \<open>catch\<close>, on the field
  \<open>isTyping\<close>; its text is the same in both servers but for \<open>!!isTyping\<close>, the truthiness
  that \<open>setTyping\<close> tests anyway.\<close>

definition typing_try :: "socket_id \<Rightarrow> jsval
    \<Rightarrow> (('a user_scheme, 'r, 'c) storage_scheme, 'z) world_scheme
    \<Rightarrow> (('a user_scheme, 'r, 'c) storage_scheme, 'z) world_scheme \<times> 'a user_scheme emission list" where
  "typing_try sid isTyping w =
    (case getUserBySocketId sid (storage w) of
       None \<Rightarrow> (w, [])
     | Some u \<Rightarrow>
        (let (typing_users, st) = setTyping (user_id u) (user_room u) (truthy isTyping) (storage w);
             w1 = w\<lparr>storage := st\<rparr>
         in (w1, [emit (ToOthers (user_room u) sid)
                    (EvTyping (filter (\<lambda>x. user_id x \<noteq> user_id u) typing_users)) w1])))"

text \<open>
  The listener of typing, \<open>socket.on('typing', ({ isTyping }) => { try ... })\<close>, of both
  servers: the parameter pattern, which throws on an argument that is absent, then the
  body.
\<close>

definition on_typing :: "socket_id \<Rightarrow> jsval arg
    \<Rightarrow> (('a user_scheme, 'r, 'c) storage_scheme, 'z) world_scheme
    \<Rightarrow> (('a user_scheme, 'r, 'c) storage_scheme, 'z) world_scheme \<times> 'a user_scheme emission list" where
  "on_typing sid a w =
    (case a of
       Absent \<Rightarrow> uncaught w
     | Given isTyping \<Rightarrow> typing_try sid isTyping w)"

text \<open>\<open>disconnect\<close> of server.js; its listener takes no argument.\<close>

definition on_disconnect :: "timestamp \<Rightarrow> socket_id \<Rightarrow> pworld \<Rightarrow> pworld \<times> user emission list" where
  "on_disconnect now sid w =
    (case removeUser sid (storage w) of
       (None, st) \<Rightarrow> (w\<lparr>storage := st\<rparr>, [])
     | (Some u, st) \<Rightarrow>
        (let w1 = w\<lparr>storage := st\<rparr>;
             (i, w2) = uuidv4 w1;
             e1 = emit (ToOthers (user_room u) sid)
                    (EvMessage (system_message i (username u @ '' has left the chat'') now)) w2;
             e2 = emit (ToOthers (user_room u) sid)
                    (EvOnlineUsers (getUsersInRoom (user_room u) (storage w2))) w2
         in (w2, [e1, e2])))"

text \<open>\<open>leaveRoom\<close>; its text is the same in both servers, and its listener takes no
  argument.\<close>

definition on_leaveRoom :: "timestamp \<Rightarrow> socket_id
    \<Rightarrow> (('a user_scheme, 'b room_scheme, 'c) storage_scheme, 'z) world_scheme
    \<Rightarrow> (('a user_scheme, 'b room_scheme, 'c) storage_scheme, 'z) world_scheme
        \<times> 'a user_scheme emission list" where
  "on_leaveRoom now sid w =
    (case removeUser sid (storage w) of
       (None, st) \<Rightarrow> (w\<lparr>storage := st\<rparr>, [])
     | (Some u, st) \<Rightarrow>
        (let w1 = socket_leave sid (user_room u) (w\<lparr>storage := st\<rparr>);
             (i, w2) = uuidv4 w1;
             e1 = emit (ToOthers (user_room u) sid)
                    (EvMessage (system_message i (username u @ '' has left the chat'') now)) w2;
             e2 = emit (ToOthers (user_room u) sid)
                    (EvOnlineUsers (getUsersInRoom (user_room u) (storage w2))) w2;
             e3 = emit (ToSocket sid) EvLeftRoom w2
         in (w2, [e1, e2, e3])))"

section \<open>The event loop of server.js\<close>

text \<open>
  An inbound event arrives on a connection with the clock reading at which its listener
  runs. The listeners run one after the other, each to completion. The server starts no
  timer of its own, so between two inbound events no code of the server runs.

  \<open>JoinRoom\<close>, \<open>SendMessage\<close> and \<open>Typing\<close> are the events whose argument can be
  destructured, given by the fields that the pattern binds; \<open>Bare\<close> is the event of that
  name whose argument is \<open>undefined\<close> or \<open>null\<close>.
\<close>

datatype listener = LJoinRoom | LSendMessage | LTyping

datatype event =
    JoinRoom socket_id jsval jsval
  | SendMessage socket_id jsval
  | Typing socket_id jsval
  | Disconnect socket_id
  | LeaveRoom socket_id
  | Bare socket_id listener

text \<open>The listener that an event runs.\<close>

fun handle_cap :: "nat \<Rightarrow> timestamp \<times> event \<Rightarrow> pworld \<Rightarrow> pworld \<times> user emission list" where
  "handle_cap cap (now, JoinRoom sid uname rname) w = joinRoom_listener now sid (Given (uname, rname)) w"
| "handle_cap cap (now, SendMessage sid msg) w = on_sendMessage_cap cap now sid (Given msg) w"
| "handle_cap cap (now, Typing sid isTyping) w = on_typing sid (Given isTyping) w"
| "handle_cap cap (now, Disconnect sid) w = on_disconnect now sid (socket_leave_all sid w)"
| "handle_cap cap (now, LeaveRoom sid) w = on_leaveRoom now sid w"
| "handle_cap cap (now, Bare sid LJoinRoom) w = joinRoom_listener now sid Absent w"
| "handle_cap cap (now, Bare sid LSendMessage) w = on_sendMessage_cap cap now sid Absent w"
| "handle_cap cap (now, Bare sid LTyping) w = on_typing sid Absent w"

text \<open>One inbound event: its listener runs if the process is alive.\<close>

definition step_cap :: "nat \<Rightarrow> timestamp \<times> event \<Rightarrow> pworld \<Rightarrow> pworld \<times> user emission list" where
  "step_cap cap e w = (if alive w then handle_cap cap e w else (w, []))"

definition step :: "timestamp \<times> event \<Rightarrow> pworld \<Rightarrow> pworld \<times> user emission list" where
  "step = step_cap 100"

fun run_cap :: "nat \<Rightarrow> (timestamp \<times> event) list \<Rightarrow> pworld \<Rightarrow> pworld" where
  "run_cap cap [] w = w"
| "run_cap cap (e # es) w = run_cap cap es (fst (step_cap cap e w))"

definition run :: "(timestamp \<times> event) list \<Rightarrow> pworld \<Rightarrow> pworld" where
  "run = run_cap 100"

definition storage0 :: "(user, room) storage" where
  "storage0 = \<lparr>users = Map.empty, rooms = Map.empty, sockets = Map.empty, typingUsers = Map.empty\<rparr>"

definition world0 :: pworld where
  "world0 = \<lparr>storage = storage0, sio = (\<lambda>r. {}), uuid_next = 0, alive = True\<rparr>"

section \<open>server-secure.js\<close>

text \<open>
  The hardened server sanitises with the library function \<open>xss\<close>, which is not part of the
  repository: it is the parameter \<open>xss\<close> of everything below.
\<close>

definition sanitizeInput :: "(string \<Rightarrow> string) \<Rightarrow> jsval \<Rightarrow> string" where
  "sanitizeInput xss v = (case v of JStr s \<Rightarrow> xss (take 1000 (trim s)) | _ \<Rightarrow> [])"

text \<open>The character class \<open>[a-zA-Z0-9_\s]\<close>.\<close>

definition is_name_char :: "char \<Rightarrow> bool" where
  "is_name_char c =
    (let n = (of_char c :: nat)
     in (97 \<le> n \<and> n \<le> 122) \<or> (65 \<le> n \<and> n \<le> 90) \<or> (48 \<le> n \<and> n \<le> 57) \<or> n = 95 \<or> is_ws c)"

text \<open>\<open>/^[a-zA-Z0-9_\s]+$/.test(s)\<close>\<close>

definition name_regex_test :: "string \<Rightarrow> bool" where
  "name_regex_test s = (s \<noteq> [] \<and> list_all is_name_char s)"

definition isValidUsername :: "(string \<Rightarrow> string) \<Rightarrow> jsval \<Rightarrow> bool" where
  "isValidUsername xss uname =
    (case uname of
       JStr s \<Rightarrow>
         (if s = [] then False
          else let sanitized = sanitizeInput xss uname
               in length sanitized \<ge> 2 \<and> length sanitized \<le> 20 \<and> name_regex_test sanitized)
     | _ \<Rightarrow> False)"

definition isValidRoomName :: "(string \<Rightarrow> string) \<Rightarrow> jsval \<Rightarrow> bool" where
  "isValidRoomName xss rname =
    (case rname of
       JStr s \<Rightarrow>
         (if s = [] then False
          else let sanitized = sanitizeInput xss rname
               in length sanitized \<ge> 2 \<and> length sanitized \<le> 30 \<and> name_regex_test sanitized)
     | _ \<Rightarrow> False)"

text \<open>The user object has a \<open>joinTime\<close>, the room object a \<open>createdAt\<close>, the storage the
  connection count of each address.\<close>

record secure_user = user +
  joinTime :: timestamp

record secure_room = room +
  createdAt :: timestamp

record ('u, 'r) secure_storage = "('u, 'r) storage" +
  ipConnections :: "string \<rightharpoonup> nat"

type_synonym sstorage = "(secure_user, secure_room) secure_storage"

definition trackConnection :: "string \<Rightarrow> sstorage \<Rightarrow> nat \<times> sstorage" where
  "trackConnection ip st =
    (let current = (case ipConnections st ip of None \<Rightarrow> 0 | Some n \<Rightarrow> n)
     in (current + 1, st\<lparr>ipConnections := (ipConnections st)(ip \<mapsto> current + 1)\<rparr>))"

definition untrackConnection :: "string \<Rightarrow> sstorage \<Rightarrow> sstorage" where
  "untrackConnection ip st =
    (let current = (case ipConnections st ip of None \<Rightarrow> 1 | Some n \<Rightarrow> if n = 0 then 1 else n)
     in if current \<le> 1 then st\<lparr>ipConnections := (ipConnections st)(ip := None)\<rparr>
        else st\<lparr>ipConnections := (ipConnections st)(ip \<mapsto> current - 1)\<rparr>)"

definition addUser_secure :: "(string \<Rightarrow> string) \<Rightarrow> timestamp \<Rightarrow> uuid \<Rightarrow> string \<Rightarrow> string
    \<Rightarrow> socket_id \<Rightarrow> sstorage \<Rightarrow> secure_user \<times> sstorage" where
  "addUser_secure xss now userId uname rname sid st =
    (let u = \<lparr>user_id = userId, username = sanitizeInput xss (JStr uname),
              user_room = sanitizeInput xss (JStr rname), socketId = sid, joinTime = now\<rparr>;
         st1 = st\<lparr>users := (users st)(userId \<mapsto> u)\<rparr>;
         st2 = st1\<lparr>sockets := (sockets st1)(sid \<mapsto> userId)\<rparr>;
         st3 = (if rooms st2 rname = None
                then st2\<lparr>rooms := (rooms st2)(rname \<mapsto>
                           \<lparr>room_users = [], room_messages = [], createdAt = now\<rparr>)\<rparr>
                else st2);
         st4 = (case rooms st3 rname of
                  None \<Rightarrow> st3
                | Some r \<Rightarrow> st3\<lparr>rooms := (rooms st3)(rname \<mapsto> r\<lparr>room_users := set_add userId (room_users r)\<rparr>)\<rparr>)
     in (u, st4))"

text \<open>\<open>addMessage\<close> of server-secure.js, with the literal 50 as the parameter \<open>cap\<close>.\<close>

definition addMessage_secure_cap :: "nat \<Rightarrow> (string \<Rightarrow> string) \<Rightarrow> string \<Rightarrow> message \<Rightarrow> sstorage
    \<Rightarrow> sstorage" where
  "addMessage_secure_cap cap xss roomName m st =
    (case rooms st roomName of
       None \<Rightarrow> st
     | Some r \<Rightarrow>
        (let sanitizedMessage = m\<lparr>msg_message := sanitizeInput xss (JStr (msg_message m)),
                                  msg_username := sanitizeInput xss (JStr (msg_username m))\<rparr>;
             ms = room_messages r @ [sanitizedMessage];
             ms' = (if length ms > cap then slice_last cap ms else ms)
         in st\<lparr>rooms := (rooms st)(roomName \<mapsto> r\<lparr>room_messages := ms'\<rparr>)\<rparr>))"

definition addMessage_secure :: "(string \<Rightarrow> string) \<Rightarrow> string \<Rightarrow> message \<Rightarrow> sstorage \<Rightarrow> sstorage" where
  "addMessage_secure = addMessage_secure_cap 50"

text \<open>The connections whose listeners are registered, each with the \<open>clientIP\<close> of its
  closure.\<close>

record 's secure_world = "'s world" +
  clientIP :: "socket_id \<rightharpoonup> string"

type_synonym sworld = "sstorage secure_world"

definition MAX_CONNECTIONS_PER_IP :: nat where
  "MAX_CONNECTIONS_PER_IP = 5"

definition on_connection_secure :: "socket_id \<Rightarrow> string \<Rightarrow> sworld
    \<Rightarrow> sworld \<times> secure_user emission list" where
  "on_connection_secure sid ip w =
    (let (connectionsFromIP, st) = trackConnection ip (storage w);
         w1 = w\<lparr>storage := st\<rparr>
     in if connectionsFromIP > MAX_CONNECTIONS_PER_IP
        then (let e = emit (ToSocket sid) (EvError ''Connection limit exceeded'') w1;
                  w2 = socket_leave_all sid w1;
                  w3 = w2\<lparr>storage := untrackConnection ip (storage w2)\<rparr>
              in (w3, [e]))
        else (w1\<lparr>clientIP := (clientIP w1)(sid \<mapsto> ip)\<rparr>, []))"

definition on_joinRoom_secure :: "(string \<Rightarrow> string) \<Rightarrow> timestamp \<Rightarrow> socket_id \<Rightarrow> jsval \<Rightarrow> jsval
    \<Rightarrow> sworld \<Rightarrow> sworld \<times> secure_user emission list" where
  "on_joinRoom_secure xss now sid uname rname w =
    (if \<not> isValidUsername xss uname \<or> \<not> isValidRoomName xss rname
     then (w, [emit (ToSocket sid) (EvError ''Invalid username or room name'') w])
     else
       (let sanitizedUsername = sanitizeInput xss uname;
            sanitizedRoom = sanitizeInput xss rname;
            (userId, w1) = uuidv4 w;
            (u, st) = addUser_secure xss now userId sanitizedUsername sanitizedRoom sid (storage w1);
            w2 = socket_join sid sanitizedRoom (w1\<lparr>storage := st\<rparr>);
            (i1, w3) = uuidv4 w2;
            e1 = emit (ToSocket sid)
                   (EvMessage (system_message i1
                      (''Welcome to '' @ sanitizedRoom @ '', '' @ sanitizedUsername @ ''!'') now)) w3;
            (i2, w4) = uuidv4 w3;
            e2 = emit (ToOthers sanitizedRoom sid)
                   (EvMessage (system_message i2 (sanitizedUsername @ '' has joined the chat'') now)) w4;
            e3 = emit (ToSocket sid) (EvRoomHistory (getRoomMessages sanitizedRoom (storage w4))) w4;
            e4 = emit (ToRoom sanitizedRoom) (EvOnlineUsers (getUsersInRoom sanitizedRoom (storage w4))) w4
        in (w4, [e1, e2, e3, e4])))"

text \<open>The listener of joinRoom of server-secure.js: the parameter pattern, then the
  body \<open>on_joinRoom_secure\<close>.\<close>

definition joinRoom_listener_secure :: "(string \<Rightarrow> string) \<Rightarrow> timestamp \<Rightarrow> socket_id
    \<Rightarrow> (jsval \<times> jsval) arg \<Rightarrow> sworld \<Rightarrow> sworld \<times> secure_user emission list" where
  "joinRoom_listener_secure xss now sid a w =
    (case a of
       Absent \<Rightarrow> uncaught w
     | Given (uname, rname) \<Rightarrow> on_joinRoom_secure xss now sid uname rname w)"

text \<open>The body of the sendMessage listener of server-secure.js, on the field
  \<open>message\<close>.\<close>

definition sendMessage_secure_try_cap :: "nat \<Rightarrow> (string \<Rightarrow> string) \<Rightarrow> timestamp \<Rightarrow> socket_id
    \<Rightarrow> jsval \<Rightarrow> sworld \<Rightarrow> sworld \<times> secure_user emission list" where
  "sendMessage_secure_try_cap cap xss now sid msg w =
    (case getUserBySocketId sid (storage w) of
       None \<Rightarrow> (w, [emit (ToSocket sid) (EvError ''User not found'') w])
     | Some u \<Rightarrow>
        (case msg of
           JStr m \<Rightarrow>
             (if m = [] then (w, [emit (ToSocket sid) (EvError ''Invalid message'') w])
              else
                (let sanitizedMessage = sanitizeInput xss msg
                 in if length sanitizedMessage = 0 \<or> length sanitizedMessage > 500
                    then (w, [emit (ToSocket sid) (EvError ''Message length invalid'') w])
                    else
                      (let (i, w1) = uuidv4 w;
                           messageObj = \<lparr>msg_id = i, msg_username = username u,
                                         msg_message = sanitizedMessage, msg_timestamp = now,
                                         msg_type = TUser\<rparr>;
                           w2 = w1\<lparr>storage := addMessage_secure_cap cap xss (user_room u) messageObj
                                                (storage w1)\<rparr>
                       in (w2, [emit (ToRoom (user_room u)) (EvMessage messageObj) w2]))))
         | _ \<Rightarrow> (w, [emit (ToSocket sid) (EvError ''Invalid message'') w])))"

text \<open>
  The listener of sendMessage of server-secure.js,
  \<open>socket.on('sendMessage', ({ message }) => { try ... })\<close>: the parameter pattern, which
  throws on an argument that is absent, then the body.
\<close>

definition on_sendMessage_secure_cap :: "nat \<Rightarrow> (string \<Rightarrow> string) \<Rightarrow> timestamp \<Rightarrow> socket_id
    \<Rightarrow> jsval arg \<Rightarrow> sworld \<Rightarrow> sworld \<times> secure_user emission list" where
  "on_sendMessage_secure_cap cap xss now sid a w =
    (case a of
       Absent \<Rightarrow> uncaught w
     | Given msg \<Rightarrow> sendMessage_secure_try_cap cap xss now sid msg w)"

definition on_sendMessage_secure :: "(string \<Rightarrow> string) \<Rightarrow> timestamp \<Rightarrow> socket_id
    \<Rightarrow> jsval arg \<Rightarrow> sworld \<Rightarrow> sworld \<times> secure_user emission list" where
  "on_sendMessage_secure = on_sendMessage_secure_cap 50"

definition on_disconnect_secure :: "timestamp \<Rightarrow> socket_id \<Rightarrow> string \<Rightarrow> sworld
    \<Rightarrow> sworld \<times> secure_user emission list" where
  "on_disconnect_secure now sid ip w =
    (case removeUser sid (storage w) of
       (r, st) \<Rightarrow>
        (let w0 = w\<lparr>storage := untrackConnection ip st\<rparr>
         in case r of
              None \<Rightarrow> (w0, [])
            | Some u \<Rightarrow>
               (let (i, w2) = uuidv4 w0;
                    e1 = emit (ToOthers (user_room u) sid)
                           (EvMessage (system_message i (username u @ '' has left the chat'') now)) w2;
                    e2 = emit (ToOthers (user_room u) sid)
                           (EvOnlineUsers (getUsersInRoom (user_room u) (storage w2))) w2
                in (w2, [e1, e2]))))"

text \<open>
  The event loop of the hardened server. A connection over the limit returns before
  it registers a listener, so its later events run no code; a closed connection sends
  nothing more.
\<close>

datatype secure_event = Connection socket_id string | Inbound event

fun socket_of :: "event \<Rightarrow> socket_id" where
  "socket_of (JoinRoom sid uname rname) = sid"
| "socket_of (SendMessage sid msg) = sid"
| "socket_of (Typing sid isTyping) = sid"
| "socket_of (Disconnect sid) = sid"
| "socket_of (LeaveRoom sid) = sid"
| "socket_of (Bare sid l) = sid"

fun dispatch_secure_cap :: "nat \<Rightarrow> (string \<Rightarrow> string) \<Rightarrow> timestamp \<Rightarrow> string \<Rightarrow> event \<Rightarrow> sworld
    \<Rightarrow> sworld \<times> secure_user emission list" where
  "dispatch_secure_cap cap xss now ip (JoinRoom sid uname rname) w =
     joinRoom_listener_secure xss now sid (Given (uname, rname)) w"
| "dispatch_secure_cap cap xss now ip (SendMessage sid msg) w =
     on_sendMessage_secure_cap cap xss now sid (Given msg) w"
| "dispatch_secure_cap cap xss now ip (Typing sid isTyping) w = on_typing sid (Given isTyping) w"
| "dispatch_secure_cap cap xss now ip (Disconnect sid) w =
     (let (w1, es) = on_disconnect_secure now sid ip (socket_leave_all sid w)
      in (w1\<lparr>clientIP := (clientIP w1)(sid := None)\<rparr>, es))"
| "dispatch_secure_cap cap xss now ip (LeaveRoom sid) w = on_leaveRoom now sid w"
| "dispatch_secure_cap cap xss now ip (Bare sid LJoinRoom) w =
     joinRoom_listener_secure xss now sid Absent w"
| "dispatch_secure_cap cap xss now ip (Bare sid LSendMessage) w =
     on_sendMessage_secure_cap cap xss now sid Absent w"
| "dispatch_secure_cap cap xss now ip (Bare sid LTyping) w = on_typing sid Absent w"

fun handle_secure_cap :: "nat \<Rightarrow> (string \<Rightarrow> string) \<Rightarrow> timestamp \<times> secure_event \<Rightarrow> sworld
    \<Rightarrow> sworld \<times> secure_user emission list" where
  "handle_secure_cap cap xss (now, Connection sid ip) w = on_connection_secure sid ip w"
| "handle_secure_cap cap xss (now, Inbound e) w =
     (case clientIP w (socket_of e) of
        None \<Rightarrow> (w, [])
      | Some ip \<Rightarrow> dispatch_secure_cap cap xss now ip e w)"

definition step_secure_cap :: "nat \<Rightarrow> (string \<Rightarrow> string) \<Rightarrow> timestamp \<times> secure_event \<Rightarrow> sworld
    \<Rightarrow> sworld \<times> secure_user emission list" where
  "step_secure_cap cap xss e w = (if alive w then handle_secure_cap cap xss e w else (w, []))"

definition step_secure :: "(string \<Rightarrow> string) \<Rightarrow> timestamp \<times> secure_event \<Rightarrow> sworld
    \<Rightarrow> sworld \<times> secure_user emission list" where
  "step_secure = step_secure_cap 50"

fun run_secure_cap :: "nat \<Rightarrow> (string \<Rightarrow> string) \<Rightarrow> (timestamp \<times> secure_event) list \<Rightarrow> sworld
    \<Rightarrow> sworld" where
  "run_secure_cap cap xss [] w = w"
| "run_secure_cap cap xss (e # es) w = run_secure_cap cap xss es (fst (step_secure_cap cap xss e w))"

definition run_secure :: "(string \<Rightarrow> string) \<Rightarrow> (timestamp \<times> secure_event) list \<Rightarrow> sworld \<Rightarrow> sworld" where
  "run_secure = run_secure_cap 50"

definition sstorage0 :: sstorage where
  "sstorage0 = \<lparr>users = Map.empty, rooms = Map.empty, sockets = Map.empty,
                typingUsers = Map.empty, ipConnections = Map.empty\<rparr>"

definition sworld0 :: sworld where
  "sworld0 = \<lparr>storage = sstorage0, sio = (\<lambda>r. {}), uuid_next = 0, alive = True,
               clientIP = Map.empty\<rparr>"

section \<open>Observations used by the properties\<close>

text \<open>The message log of every room that exists.\<close>

definition logs :: "('u, 'b room_scheme, 'c) storage_scheme \<Rightarrow> string \<rightharpoonup> message list" where
  "logs st = (\<lambda>r. map_option room_messages (rooms st r))"

text \<open>What \<open>addMessage\<close> keeps of the log after its \<open>push\<close>.\<close>

definition keep :: "nat \<Rightarrow> 'a list \<Rightarrow> 'a list" where
  "keep cap ms = (if length ms > cap then slice_last cap ms else ms)"

text \<open>What one inbound event can do to the logs: nothing, create a room with an empty log,
  or append one message of type user to the log of a room.\<close>

definition log_step :: "nat \<Rightarrow> (string \<rightharpoonup> message list) \<Rightarrow> (string \<rightharpoonup> message list) \<Rightarrow> bool" where
  "log_step cap L L' \<longleftrightarrow>
     L' = L \<or> (\<exists>r. L r = None \<and> L' = L(r \<mapsto> []))
     \<or> (\<exists>r ms m. L r = Some ms \<and> msg_type m = TUser \<and> L' = L(r \<mapsto> keep cap (ms @ [m])))"

text \<open>The bound on every log.\<close>

definition logs_bounded :: "nat \<Rightarrow> (string \<rightharpoonup> message list) \<Rightarrow> bool" where
  "logs_bounded cap L \<longleftrightarrow> (\<forall>r ms. L r = Some ms \<longrightarrow> length ms \<le> cap)"

section \<open>Fixtures: one user joined to the room general\<close>

definition ev_join1 :: "timestamp \<times> event" where
  "ev_join1 = (0, JoinRoom 1 (JStr ''J1'') (JStr ''general''))"

definition joined1 :: pworld where
  "joined1 = run [ev_join1] world0"

definition joined1_secure :: sworld where
  "joined1_secure = run_secure id [(0, Connection 1 ''10.0.0.1''), (1, Inbound (snd ev_join1))] sworld0"

text \<open>The hardened server with one connection accepted and nobody joined.\<close>

definition connected1_secure :: sworld where
  "connected1_secure = fst (step_secure id (0, Connection 1 ''10.0.0.1'') sworld0)"

definition msg_a :: message where
  "msg_a = \<lparr>msg_id = 7, msg_username = ''J1'', msg_message = ''a'', msg_timestamp = 1, msg_type = TUser\<rparr>"

definition user_J1 :: user where
  "user_J1 = \<lparr>user_id = 0, username = ''J1'', user_room = ''general'', socketId = 1\<rparr>"

text \<open>Every retained message is of type user.\<close>

definition logs_user_only :: "(string \<rightharpoonup> message list) \<Rightarrow> bool" where
  "logs_user_only L \<longleftrightarrow> (\<forall>r ms. L r = Some ms \<longrightarrow> (\<forall>m\<in>set ms. msg_type m = TUser))"

section \<open>Fixtures: a message, a second user\<close>

definition ev_hello :: "timestamp \<times> event" where
  "ev_hello = (1, SendMessage 1 (JStr ''hello''))"

definition ev_join2 :: "timestamp \<times> event" where
  "ev_join2 = (2, JoinRoom 2 (JStr ''J2'') (JStr ''general''))"

definition msg_hello :: message where
  "msg_hello = \<lparr>msg_id = 3, msg_username = ''J1'', msg_message = ''hello'', msg_timestamp = 1,
                 msg_type = TUser\<rparr>"

definition secure_hello :: "(timestamp \<times> secure_event) list" where
  "secure_hello = [(0, Connection 1 ''10.0.0.1''), (0, Inbound (snd ev_join1)),
                   (1, Inbound (snd ev_hello))]"

text \<open>The session map and the users agree, and every identifier in use was handed out
  by the supply.\<close>

definition session_consistent :: "pworld \<Rightarrow> bool" where
  "session_consistent w \<longleftrightarrow>
     (\<forall>uid u. users (storage w) uid = Some u \<longrightarrow> user_id u = uid \<and> uid < uuid_next w)
     \<and> (\<forall>sid uid. sockets (storage w) sid = Some uid \<longrightarrow>
            (\<exists>u. users (storage w) uid = Some u \<and> socketId u = sid))"


text \<open>The invariant as the specification words it: no two registered identities carry
  the same socket id.\<close>

definition spec_one_identity_per_session :: "(user, room) storage \<Rightarrow> bool" where
  "spec_one_identity_per_session st \<longleftrightarrow>
     (\<forall>i j u v. users st i = Some u \<and> users st j = Some v \<and> socketId u = socketId v \<longrightarrow> i = j)"

text \<open>A second joinRoom on the connection of the first user.\<close>

definition ev_rejoin1 :: "timestamp \<times> event" where
  "ev_rejoin1 = (5, JoinRoom 1 (JStr ''J1b'') (JStr ''general''))"

section \<open>Fixtures: a second user, a room name with a leading space\<close>

definition user_J2 :: user where
  "user_J2 = \<lparr>user_id = 3, username = ''J2'', user_room = ''general'', socketId = 2\<rparr>"

definition ev_join2_early :: "timestamp \<times> event" where
  "ev_join2_early = (1, JoinRoom 2 (JStr ''J2'') (JStr ''general''))"

definition ev_join2_padded :: "timestamp \<times> event" where
  "ev_join2_padded = (2, JoinRoom 2 (JStr ''J2'') (JStr '' general''))"

section \<open>The typing debounce of MessageInput.tsx\<close>




section \<open>Observations of the typing sets\<close>

text \<open>The typing set of a room.\<close>

definition typing_in :: "string \<Rightarrow> (('u, 'r, 'c) storage_scheme, 'z) world_scheme \<Rightarrow> uuid list" where
  "typing_in r w = (case typingUsers (storage w) r of None \<Rightarrow> [] | Some t \<Rightarrow> t)"

section \<open>Fixtures: three users in the room general, the first one typing\<close>








section \<open>The message logs\<close>

lemma logs_removeUser: "logs (snd (removeUser sid st)) = logs st"
  by (auto simp: removeUser_def logs_def Let_def fun_eq_iff split: option.splits)

lemma logs_setTyping: "logs (snd (setTyping i r b st)) = logs st"
  by (auto simp: setTyping_def logs_def Let_def fun_eq_iff split: option.splits)

lemma logs_addUser: "logs (snd (addUser i un rn sid st)) =
   (if logs st rn = None then (logs st)(rn \<mapsto> []) else logs st)"
  by (auto simp: addUser_def logs_def Let_def fun_eq_iff split: option.splits)

lemma logs_addUser_secure: "logs (snd (addUser_secure xss now i un rn sid st)) =
   (if logs st rn = None then (logs st)(rn \<mapsto> []) else logs st)"
  by (auto simp: addUser_secure_def logs_def Let_def fun_eq_iff split: option.splits)

lemma logs_addMessage_cap: "logs (addMessage_cap cap r m st) =
   (case logs st r of None \<Rightarrow> logs st | Some ms \<Rightarrow> (logs st)(r \<mapsto> keep cap (ms @ [m])))"
  by (auto simp: addMessage_cap_def logs_def Let_def fun_eq_iff keep_def split: option.splits)

lemma logs_addMessage_secure_cap: "logs (addMessage_secure_cap cap xss r m st) =
   (case logs st r of None \<Rightarrow> logs st | Some ms \<Rightarrow> (logs st)(r \<mapsto> keep cap (ms @ 
     [m\<lparr>msg_message := sanitizeInput xss (JStr (msg_message m)),
                                  msg_username := sanitizeInput xss (JStr (msg_username m))\<rparr>])))"
  by (auto simp: addMessage_secure_cap_def logs_def Let_def fun_eq_iff keep_def split: option.splits)

lemma logs_untrack: "logs (untrackConnection ip st) = logs st"
  by (auto simp: untrackConnection_def logs_def Let_def)

lemma logs_track: "logs (snd (trackConnection ip st)) = logs st"
  by (auto simp: trackConnection_def logs_def Let_def)


lemma log_step_refl: "log_step cap L L"
  by (simp add: log_step_def)

lemma log_step_create: "log_step cap L (if L rn = None then L(rn \<mapsto> []) else L)"
  by (auto simp: log_step_def)

lemma log_step_append:
  "msg_type m = TUser \<Longrightarrow>
   log_step cap L (case L r of None \<Rightarrow> L | Some ms \<Rightarrow> L(r \<mapsto> keep cap (ms @ [m])))"
  by (cases "L r") (auto simp: log_step_def)

lemma storage_uuidv4: "storage (snd (uuidv4 w)) = storage w"
  by (simp add: uuidv4_def)

lemma storage_socket_join: "storage (socket_join sid r w) = storage w"
  by (simp add: socket_join_def)

lemma storage_socket_leave: "storage (socket_leave sid r w) = storage w"
  by (simp add: socket_leave_def)

lemma storage_socket_leave_all: "storage (socket_leave_all sid w) = storage w"
  by (simp add: socket_leave_all_def)

lemmas storage_simps = storage_uuidv4 storage_socket_join storage_socket_leave storage_socket_leave_all

lemma listeners_given:
  "joinRoom_listener now sid (Given (un, rn)) w = on_joinRoom now sid un rn w"
  "on_sendMessage_cap cap now sid (Given msg) w = sendMessage_try_cap cap now sid msg w"
  "on_typing sid (Given b) w' = typing_try sid b w'"
  "joinRoom_listener_secure xss now sid (Given (un, rn)) sw = on_joinRoom_secure xss now sid un rn sw"
  "on_sendMessage_secure_cap cap xss now sid (Given msg) sw
     = sendMessage_secure_try_cap cap xss now sid msg sw"
  by (simp_all add: joinRoom_listener_def on_sendMessage_cap_def on_typing_def
        joinRoom_listener_secure_def on_sendMessage_secure_cap_def)

lemma listeners_absent:
  "joinRoom_listener now sid Absent w = uncaught w"
  "on_sendMessage_cap cap now sid Absent w = uncaught w"
  "on_typing sid Absent w' = uncaught w'"
  "joinRoom_listener_secure xss now sid Absent sw = uncaught sw"
  "on_sendMessage_secure_cap cap xss now sid Absent sw = uncaught sw"
  by (simp_all add: joinRoom_listener_def on_sendMessage_cap_def on_typing_def
        joinRoom_listener_secure_def on_sendMessage_secure_cap_def)

lemma storage_uncaught: "storage (fst (uncaught w)) = storage w"
  by (simp add: uncaught_def)

lemma snd_uncaught: "snd (uncaught w) = []"
  by (simp add: uncaught_def)

lemmas listener_simps = listeners_given listeners_absent storage_uncaught snd_uncaught

lemma on_joinRoom_logs:
  "log_step cap (logs (storage w)) (logs (storage (fst (on_joinRoom now sid un rn w))))"
  by (simp add: on_joinRoom_def Let_def case_prod_beta storage_simps logs_addUser log_step_create
           log_step_refl split: jsval.splits del: split_paired_All)

lemma sendMessage_try_cap_logs:
  "log_step cap (logs (storage w)) (logs (storage (fst (sendMessage_try_cap cap now sid msg w))))"
  by (simp add: sendMessage_try_cap_def Let_def case_prod_beta storage_simps logs_addMessage_cap
        log_step_append log_step_refl split: jsval.splits option.splits)

lemma typing_try_logs:
  "logs (storage (fst (typing_try sid b w))) = logs (storage w)"
  by (auto simp: typing_try_def Let_def case_prod_beta storage_simps logs_setTyping
           split: option.splits)

lemma on_disconnect_logs:
  "logs (storage (fst (on_disconnect now sid w))) = logs (storage w)"
  using logs_removeUser[of sid "storage w"]
  by (auto simp: on_disconnect_def Let_def case_prod_beta storage_simps
           split: option.splits prod.splits)

lemma on_leaveRoom_logs:
  "logs (storage (fst (on_leaveRoom now sid w))) = logs (storage w)"
  using logs_removeUser[of sid "storage w"]
  by (auto simp: on_leaveRoom_def Let_def case_prod_beta storage_simps
           split: option.splits prod.splits)

lemma handle_cap_logs:
  "log_step cap (logs (storage w)) (logs (storage (fst (handle_cap cap e w))))"
proof (cases e)
  case (Pair now ev)
  show ?thesis
  proof (cases ev)
    case (JoinRoom sid un rn)
    with Pair show ?thesis by (simp add: listener_simps on_joinRoom_logs)
  next
    case (SendMessage sid msg)
    with Pair show ?thesis by (simp add: listener_simps sendMessage_try_cap_logs)
  next
    case (Typing sid b)
    with Pair show ?thesis by (simp add: listener_simps typing_try_logs log_step_refl)
  next
    case (Disconnect sid)
    with Pair show ?thesis by (simp add: on_disconnect_logs log_step_refl storage_simps)
  next
    case (LeaveRoom sid)
    with Pair show ?thesis by (simp add: on_leaveRoom_logs log_step_refl)
  next
    case (Bare sid l)
    with Pair show ?thesis by (cases l) (simp_all add: listener_simps log_step_refl)
  qed
qed

lemma step_cap_logs:
  "log_step cap (logs (storage w)) (logs (storage (fst (step_cap cap e w))))"
  by (simp add: step_cap_def handle_cap_logs log_step_refl)

lemma on_connection_secure_logs:
  "logs (storage (fst (on_connection_secure sid ip w))) = logs (storage w)"
  by (auto simp: on_connection_secure_def Let_def case_prod_beta storage_simps logs_track logs_untrack)

lemma on_joinRoom_secure_logs:
  "log_step cap (logs (storage w)) (logs (storage (fst (on_joinRoom_secure xss now sid un rn w))))"
  by (simp add: on_joinRoom_secure_def Let_def case_prod_beta storage_simps logs_addUser_secure
        log_step_create log_step_refl)

lemma sendMessage_secure_try_cap_logs:
  "log_step cap (logs (storage w)) (logs (storage (fst (sendMessage_secure_try_cap cap xss now sid msg w))))"
  by (simp add: sendMessage_secure_try_cap_def Let_def case_prod_beta storage_simps
        logs_addMessage_secure_cap log_step_append log_step_refl
           split: jsval.splits option.splits)

lemma on_disconnect_secure_logs:
  "logs (storage (fst (on_disconnect_secure now sid ip w))) = logs (storage w)"
  using logs_removeUser[of sid "storage w"]
  by (auto simp: on_disconnect_secure_def Let_def case_prod_beta storage_simps logs_untrack
           split: option.splits prod.splits)

lemma dispatch_secure_cap_logs:
  "log_step cap (logs (storage w)) (logs (storage (fst (dispatch_secure_cap cap xss now ip ev w))))"
proof (cases ev)
  case (JoinRoom sid un rn)
  then show ?thesis by (simp add: listener_simps on_joinRoom_secure_logs)
next
  case (SendMessage sid msg)
  then show ?thesis by (simp add: listener_simps sendMessage_secure_try_cap_logs)
next
  case (Typing sid b)
  then show ?thesis by (simp add: listener_simps typing_try_logs log_step_refl)
next
  case (Disconnect sid)
  then show ?thesis
    using on_disconnect_secure_logs[of now sid ip "socket_leave_all sid w"]
    by (simp add: case_prod_beta log_step_refl storage_simps)
next
  case (LeaveRoom sid)
  then show ?thesis by (simp add: on_leaveRoom_logs log_step_refl)
next
  case (Bare sid l)
  then show ?thesis by (cases l) (simp_all add: listener_simps log_step_refl)
qed

lemma handle_secure_cap_logs:
  "log_step cap (logs (storage w)) (logs (storage (fst (handle_secure_cap cap xss e w))))"
proof (cases e)
  case (Pair now ev)
  show ?thesis
  proof (cases ev)
    case (Connection sid ip)
    with Pair show ?thesis by (simp add: on_connection_secure_logs log_step_refl)
  next
    case (Inbound x)
    with Pair show ?thesis
      by (simp add: dispatch_secure_cap_logs log_step_refl split: option.splits)
  qed
qed

lemma step_secure_cap_logs:
  "log_step cap (logs (storage w)) (logs (storage (fst (step_secure_cap cap xss e w))))"
  by (simp add: step_secure_cap_def handle_secure_cap_logs log_step_refl)

lemma getRoomMessages_logs:
  "getRoomMessages r st = (case logs st r of None \<Rightarrow> [] | Some ms \<Rightarrow> ms)"
  by (simp add: getRoomMessages_def logs_def split: option.splits)

lemma keep_eq_drop: "0 < cap \<Longrightarrow> keep cap ms = drop (length ms - cap) ms"
  by (simp add: keep_def slice_last_def)

lemma length_keep: "0 < cap \<Longrightarrow> length (keep cap ms) \<le> cap"
  by (simp add: keep_eq_drop)

lemma set_keep: "set (keep cap ms) \<subseteq> set ms"
  by (auto simp: keep_def slice_last_def dest: in_set_dropD)

lemma log_step_bounded:
  assumes "0 < cap" and "log_step cap L L'" and "logs_bounded cap L"
  shows "logs_bounded cap L'"
  using assms by (auto simp: log_step_def logs_bounded_def length_keep split: if_splits)

lemma run_cap_bounded:
  "0 < cap \<Longrightarrow> logs_bounded cap (logs (storage w)) \<Longrightarrow>
   logs_bounded cap (logs (storage (run_cap cap evs w)))"
proof (induction evs arbitrary: w)
  case Nil
  then show ?case by simp
next
  case (Cons e evs)
  from Cons.prems have "logs_bounded cap (logs (storage (fst (step_cap cap e w))))"
    using log_step_bounded step_cap_logs by blast
  with Cons show ?case by simp
qed

lemma run_secure_cap_bounded:
  "0 < cap \<Longrightarrow> logs_bounded cap (logs (storage w)) \<Longrightarrow>
   logs_bounded cap (logs (storage (run_secure_cap cap xss evs w)))"
proof (induction evs arbitrary: w)
  case Nil
  then show ?case by simp
next
  case (Cons e evs)
  from Cons.prems have "logs_bounded cap (logs (storage (fst (step_secure_cap cap xss e w))))"
    using log_step_bounded step_secure_cap_logs by blast
  with Cons show ?case by simp
qed

lemma logs_world0: "logs (storage world0) = Map.empty"
  by (simp add: world0_def storage0_def logs_def)

lemma logs_sworld0: "logs (storage sworld0) = Map.empty"
  by (simp add: sworld0_def sstorage0_def logs_def)

lemma history_bounded:
  "logs_bounded cap (logs st) \<Longrightarrow> length (getRoomMessages r st) \<le> cap"
  by (simp add: getRoomMessages_logs logs_bounded_def split: option.splits)

lemma scenario_D:
  "map msg_message (getRoomMessages ''general'' (storage (run_cap 2
       [(0, JoinRoom 1 (JStr ''J1'') (JStr ''general'')),
        (1, SendMessage 1 (JStr ''a'')),
        (2, SendMessage 1 (JStr ''b'')),
        (3, SendMessage 1 (JStr ''c''))] world0))) = [''b'', ''c'']"
  by (simp add: world0_def storage0_def step_cap_def joinRoom_listener_def on_sendMessage_cap_def
      on_joinRoom_def sendMessage_try_cap_def Let_def uuidv4_def
      addUser_def socket_join_def trim_def is_ws_def getUserBySocketId_def addMessage_cap_def
      getRoomMessages_def set_add_def slice_last_def emit_def)

text \<open>
  Claim C1. In every state that the plain server reaches from its start, the history of
  every room has at most 100 messages, and at most 50 in the hardened server (and at most
  \<open>cap\<close> for any positive capacity in place of the literal). \<open>addMessage\<close> on a room
  that exists appends the message and keeps the newest entries in their order: the new
  log is the old log with the message at its end, less a prefix. With capacity 2, after a
  joined user sends a, b and c, the history of the room is b, c.
\<close>

theorem message_log_bounded_fifo:
  "length (getRoomMessages r (storage (run evs world0))) \<le> 100
   \<and> length (getRoomMessages r (storage (run_secure xss sevs sworld0))) \<le> 50
   \<and> (0 < cap \<longrightarrow> length (getRoomMessages r (storage (run_cap cap evs world0))) \<le> cap
                 \<and> length (getRoomMessages r (storage (run_secure_cap cap xss sevs sworld0))) \<le> cap)
   \<and> (rooms st r \<noteq> None \<longrightarrow>
        getRoomMessages r (addMessage r m st)
          = drop (length (getRoomMessages r st) + 1 - 100) (getRoomMessages r st @ [m]))
   \<and> (rooms sst r \<noteq> None \<longrightarrow>
        getRoomMessages r (addMessage_secure xss r m sst)
          = drop (length (getRoomMessages r sst) + 1 - 50)
              (getRoomMessages r sst @ [m\<lparr>msg_message := sanitizeInput xss (JStr (msg_message m)),
                                          msg_username := sanitizeInput xss (JStr (msg_username m))\<rparr>]))
   \<and> map msg_message (getRoomMessages ''general'' (storage (run_cap 2
       [(0, JoinRoom 1 (JStr ''J1'') (JStr ''general'')),
        (1, SendMessage 1 (JStr ''a'')),
        (2, SendMessage 1 (JStr ''b'')),
        (3, SendMessage 1 (JStr ''c''))] world0))) = [''b'', ''c'']"
proof -
  have b: "0 < c \<Longrightarrow> length (getRoomMessages r (storage (run_cap c evs world0))) \<le> c" for c
    by (rule history_bounded, rule run_cap_bounded) (simp_all add: logs_world0 logs_bounded_def)
  have sb: "0 < c \<Longrightarrow> length (getRoomMessages r (storage (run_secure_cap c xss sevs sworld0))) \<le> c" for c
    by (rule history_bounded, rule run_secure_cap_bounded) (simp_all add: logs_sworld0 logs_bounded_def)
  have f: "rooms st r \<noteq> None \<Longrightarrow> getRoomMessages r (addMessage r m st)
          = drop (length (getRoomMessages r st) + 1 - 100) (getRoomMessages r st @ [m])"
    by (auto simp: addMessage_def getRoomMessages_def addMessage_cap_def slice_last_def Let_def)
  have sf: "rooms sst r \<noteq> None \<Longrightarrow> getRoomMessages r (addMessage_secure xss r m sst)
          = drop (length (getRoomMessages r sst) + 1 - 50)
              (getRoomMessages r sst @ [m\<lparr>msg_message := sanitizeInput xss (JStr (msg_message m)),
                                          msg_username := sanitizeInput xss (JStr (msg_username m))\<rparr>])"
    by (auto simp: addMessage_secure_def getRoomMessages_def addMessage_secure_cap_def slice_last_def Let_def)
  show ?thesis
    using b[of 100] sb[of 50] b[of cap] sb[of cap] f sf scenario_D
    unfolding run_def run_secure_def by simp
qed



lemmas plain_eval = run_def world0_def storage0_def step_cap_def joinRoom_listener_def
      on_sendMessage_cap_def on_typing_def on_joinRoom_def sendMessage_try_cap_def Let_def uuidv4_def
      addUser_def socket_join_def trim_def is_ws_def set_add_def emit_def getUserBySocketId_def
      addMessage_cap_def getRoomMessages_def slice_last_def

lemmas secure_eval = run_secure_def sworld0_def sstorage0_def step_secure_cap_def
      joinRoom_listener_secure_def on_sendMessage_secure_cap_def on_typing_def
      on_connection_secure_def trackConnection_def
      MAX_CONNECTIONS_PER_IP_def on_joinRoom_secure_def isValidUsername_def isValidRoomName_def
      sanitizeInput_def name_regex_test_def is_name_char_def Let_def uuidv4_def
      addUser_secure_def socket_join_def trim_def is_ws_def set_add_def emit_def

theorem message_log_bounded_fifo_witness:
  "(0::nat) < 2
   \<and> rooms (storage joined1) ''general'' \<noteq> None
   \<and> rooms (storage joined1_secure) ''general'' \<noteq> None
   \<and> length (getRoomMessages ''general'' (storage (run_cap 2 [ev_join1] world0))) \<le> 2
   \<and> getRoomMessages ''general'' (addMessage ''general'' msg_a (storage joined1))
       = drop (length (getRoomMessages ''general'' (storage joined1)) + 1 - 100)
           (getRoomMessages ''general'' (storage joined1) @ [msg_a])
   \<and> getRoomMessages ''general'' (addMessage_secure id ''general'' msg_a (storage joined1_secure))
       = drop (length (getRoomMessages ''general'' (storage joined1_secure)) + 1 - 50)
           (getRoomMessages ''general'' (storage joined1_secure) @
             [msg_a\<lparr>msg_message := sanitizeInput id (JStr (msg_message msg_a)),
                    msg_username := sanitizeInput id (JStr (msg_username msg_a))\<rparr>])"
proof -
  have h0: "(0::nat) < 2" by simp
  have h1: "rooms (storage joined1) ''general'' \<noteq> None"
    by (simp add: joined1_def ev_join1_def plain_eval)
  have h2: "rooms (storage joined1_secure) ''general'' \<noteq> None"
    by (simp add: joined1_secure_def ev_join1_def secure_eval)
  show ?thesis
    using h0 h1 h2 message_log_bounded_fifo [where cap = 2 and r = "''general''" and xss = id
        and st = "storage joined1" and sst = "storage joined1_secure" and m = msg_a
        and evs = "[ev_join1]"]
    by blast
qed

section \<open>Events from a connection without an identity\<close>

lemma removeUser_forgets: "getUserBySocketId sid (snd (removeUser sid st)) = None"
  by (auto simp: removeUser_def getUserBySocketId_def Let_def split: option.splits)

text \<open>
  With an argument that the parameter pattern can destructure, the events of a
  connection without a user are answered as claims C10 and C6 say: the typing event
  changes nothing and emits nothing, the sendMessage event is answered with the one error
  event User not found to the sender and changes nothing, in both servers. No
  connection has a user at the start, and none has one after its disconnect.
\<close>

lemma typing_with_argument_dropped:
  "getUserBySocketId sid (storage w) = None \<Longrightarrow> on_typing sid (Given isTyping) w = (w, [])"
  "getUserBySocketId sid (storage pw) = None \<Longrightarrow> step (now, Typing sid isTyping) pw = (pw, [])"
  "getUserBySocketId sid (storage sw) = None \<Longrightarrow>
     step_secure xss (now, Inbound (Typing sid isTyping)) sw = (sw, [])"
  by (simp_all add: step_def step_cap_def step_secure_def step_secure_cap_def listeners_given
        typing_try_def split: option.splits)

lemma sendMessage_with_argument_rejected:
  "getUserBySocketId sid (storage w) = None \<Longrightarrow>
     on_sendMessage now sid (Given msg) w
       = (w, [\<lparr>em_target = ToSocket sid, em_receivers = {sid},
               em_payload = EvError ''User not found''\<rparr>])"
  "getUserBySocketId sid (storage sw) = None \<Longrightarrow>
     on_sendMessage_secure xss now sid (Given msg) sw
       = (sw, [\<lparr>em_target = ToSocket sid, em_receivers = {sid},
                em_payload = EvError ''User not found''\<rparr>])"
  by (simp_all add: on_sendMessage_def on_sendMessage_secure_def listeners_given
        sendMessage_try_cap_def sendMessage_secure_try_cap_def emit_def)

lemma no_identity_at_start_or_after_disconnect:
  "getUserBySocketId sid (storage world0) = None"
  "getUserBySocketId sid (storage sworld0) = None"
  "getUserBySocketId sid (storage (fst (on_disconnect now sid w))) = None"
proof -
  show "getUserBySocketId sid (storage world0) = None"
    by (simp add: getUserBySocketId_def world0_def storage0_def)
  show "getUserBySocketId sid (storage sworld0) = None"
    by (simp add: getUserBySocketId_def sworld0_def sstorage0_def)
  show "getUserBySocketId sid (storage (fst (on_disconnect now sid w))) = None"
    using removeUser_forgets[of sid "storage w"]
    by (auto simp: on_disconnect_def uuidv4_def Let_def split: prod.splits option.splits)
qed

lemma connected1_secure_facts:
  "getUserBySocketId 1 (storage connected1_secure) = None"
  "clientIP connected1_secure 1 = Some ''10.0.0.1''"
  "alive connected1_secure"
  by (simp_all add: connected1_secure_def step_secure_def secure_eval getUserBySocketId_def)

text \<open>
  Claim C10 does not hold for a typing event without an argument. The parameter pattern
  of the listener stands outside its \<open>try\<close>: on an argument that is \<open>undefined\<close> or
  \<open>null\<close> it throws, no \<open>catch\<close> is reached and the process ends, in every state and in
  both servers. Connection 1 has no user; its typing event without an argument is not
  dropped: the server is no longer alive after it.
\<close>

theorem typing_without_argument_ends_process:
  "on_typing sid Absent w = (w\<lparr>alive := False\<rparr>, [])
   \<and> getUserBySocketId 1 (storage world0) = None
   \<and> step (5, Bare 1 LTyping) world0 = (world0\<lparr>alive := False\<rparr>, [])
   \<and> step (6, Typing 1 (JBool True)) (fst (step (5, Bare 1 LTyping) world0))
        = (world0\<lparr>alive := False\<rparr>, [])
   \<and> getUserBySocketId 1 (storage connected1_secure) = None
   \<and> step_secure id (5, Inbound (Bare 1 LTyping)) connected1_secure
        = (connected1_secure\<lparr>alive := False\<rparr>, [])"
proof -
  have a: "on_typing sid Absent w = (w\<lparr>alive := False\<rparr>, [])"
    by (simp add: listeners_absent uncaught_def)
  have b: "alive world0" by (simp add: world0_def)
  have c: "step (5, Bare 1 LTyping) world0 = (world0\<lparr>alive := False\<rparr>, [])"
    using b by (simp add: step_def step_cap_def listeners_absent uncaught_def)
  have d: "step (6, Typing 1 (JBool True)) (fst (step (5, Bare 1 LTyping) world0))
        = (world0\<lparr>alive := False\<rparr>, [])"
    unfolding c by (simp add: step_def step_cap_def)
  have e: "step_secure id (5, Inbound (Bare 1 LTyping)) connected1_secure
        = (connected1_secure\<lparr>alive := False\<rparr>, [])"
    using connected1_secure_facts(2,3)
    by (simp add: step_secure_def step_secure_cap_def listeners_absent uncaught_def)
  from a c d e no_identity_at_start_or_after_disconnect(1) [of 1] connected1_secure_facts(1)
  show ?thesis by blast
qed

text \<open>
  Claim C6 does not hold for a sendMessage event without an argument. The parameter
  pattern of the listener stands outside its \<open>try\<close>: on an argument that is \<open>undefined\<close> or
  \<open>null\<close> it throws, no \<open>catch\<close> is reached and the process ends, in every state and in
  both servers. Connection 1 has no user; its sendMessage without an argument is
  answered with no error event, and the server is no longer alive after it.
\<close>

theorem sendMessage_without_argument_ends_process:
  "on_sendMessage now sid Absent w = (w\<lparr>alive := False\<rparr>, [])
   \<and> on_sendMessage_secure xss now sid Absent sw = (sw\<lparr>alive := False\<rparr>, [])
   \<and> getUserBySocketId 1 (storage world0) = None
   \<and> step (5, Bare 1 LSendMessage) world0 = (world0\<lparr>alive := False\<rparr>, [])
   \<and> step (6, SendMessage 1 (JStr ''hello'')) (fst (step (5, Bare 1 LSendMessage) world0))
        = (world0\<lparr>alive := False\<rparr>, [])
   \<and> getUserBySocketId 1 (storage connected1_secure) = None
   \<and> step_secure id (5, Inbound (Bare 1 LSendMessage)) connected1_secure
        = (connected1_secure\<lparr>alive := False\<rparr>, [])"
proof -
  have a: "on_sendMessage now sid Absent w = (w\<lparr>alive := False\<rparr>, [])"
    "on_sendMessage_secure xss now sid Absent sw = (sw\<lparr>alive := False\<rparr>, [])"
    by (simp_all add: on_sendMessage_def on_sendMessage_secure_def listeners_absent uncaught_def)
  have b: "alive world0" by (simp add: world0_def)
  have c: "step (5, Bare 1 LSendMessage) world0 = (world0\<lparr>alive := False\<rparr>, [])"
    using b by (simp add: step_def step_cap_def listeners_absent uncaught_def)
  have d: "step (6, SendMessage 1 (JStr ''hello'')) (fst (step (5, Bare 1 LSendMessage) world0))
        = (world0\<lparr>alive := False\<rparr>, [])"
    unfolding c by (simp add: step_def step_cap_def)
  have e: "step_secure id (5, Inbound (Bare 1 LSendMessage)) connected1_secure
        = (connected1_secure\<lparr>alive := False\<rparr>, [])"
    using connected1_secure_facts(2,3)
    by (simp add: step_secure_def step_secure_cap_def listeners_absent uncaught_def)
  from a c d e no_identity_at_start_or_after_disconnect(1) [of 1] connected1_secure_facts(1)
  show ?thesis by blast
qed

section \<open>Registration and removal\<close>

lemma users_addUser: "users (snd (addUser i un rn sid st))
    = (users st)(i \<mapsto> \<lparr>user_id = i, username = un, user_room = rn, socketId = sid\<rparr>)"
  by (simp add: addUser_def Let_def split: option.splits)

lemma sockets_addUser: "sockets (snd (addUser i un rn sid st)) = (sockets st)(sid \<mapsto> i)"
  by (simp add: addUser_def Let_def split: option.splits)


lemma rooms_addUser: "rooms (snd (addUser i un rn sid st))
    = (rooms st)(rn \<mapsto> (case rooms st rn of
                            None \<Rightarrow> \<lparr>room_users = [i], room_messages = []\<rparr>
                          | Some r \<Rightarrow> r\<lparr>room_users := set_add i (room_users r)\<rparr>))"
  by (auto simp: addUser_def Let_def set_add_def split: option.splits)

lemma fst_addUser: "fst (addUser i un rn sid st)
    = \<lparr>user_id = i, username = un, user_room = rn, socketId = sid\<rparr>"
  by (simp add: addUser_def Let_def)

lemma trim_blank:
  assumes "\<forall>c\<in>set s. is_ws c"
  shows "trim s = []"
proof -
  from assms have e: "dropWhile is_ws s = []" by simp
  show ?thesis unfolding trim_def e by simp
qed

lemma removeUser_twice:
  "removeUser sid (snd (removeUser sid st)) = (None, snd (removeUser sid st))"
  by (auto simp: removeUser_def Let_def split: option.splits)

text \<open>
  Claim C4. A second \<open>removeUser\<close> with the same socket id returns null and leaves the
  storage as the first call left it, in every storage. When the socket id maps to a
  registered user, the first call returns that user and removes it from the users, from
  the socket map, from the members of its room and, the room existing, from the typing
  set of its room. A second disconnect or leaveRoom on the connection changes nothing
  and emits nothing.
\<close>

theorem removeUser_idempotent:
  "removeUser sid (snd (removeUser sid st)) = (None, snd (removeUser sid st))
   \<and> (sockets st sid = Some uid \<and> users st uid = Some u \<longrightarrow>
        fst (removeUser sid st) = Some u
        \<and> users (snd (removeUser sid st)) uid = None
        \<and> sockets (snd (removeUser sid st)) sid = None
        \<and> (\<forall>rm. rooms (snd (removeUser sid st)) (user_room u) = Some rm
               \<longrightarrow> uid \<notin> set (room_users rm))
        \<and> (rooms st (user_room u) \<noteq> None \<longrightarrow>
             (\<forall>t. typingUsers (snd (removeUser sid st)) (user_room u) = Some t
                \<longrightarrow> uid \<notin> set t)))
   \<and> on_disconnect now' sid (fst (on_disconnect now sid w)) = (fst (on_disconnect now sid w), [])
   \<and> on_leaveRoom now' sid (fst (on_leaveRoom now sid w)) = (fst (on_leaveRoom now sid w), [])"
proof -
  have a: "removeUser sid (snd (removeUser sid st)) = (None, snd (removeUser sid st))"
    by (rule removeUser_twice)
  have b: "sockets st sid = Some uid \<and> users st uid = Some u \<longrightarrow>
        fst (removeUser sid st) = Some u
        \<and> users (snd (removeUser sid st)) uid = None
        \<and> sockets (snd (removeUser sid st)) sid = None
        \<and> (\<forall>rm. rooms (snd (removeUser sid st)) (user_room u) = Some rm
               \<longrightarrow> uid \<notin> set (room_users rm))
        \<and> (rooms st (user_room u) \<noteq> None \<longrightarrow>
             (\<forall>t. typingUsers (snd (removeUser sid st)) (user_room u) = Some t
                \<longrightarrow> uid \<notin> set t))"
    by (auto simp: removeUser_def Let_def set_delete_def split: option.splits)
  have c: "on_disconnect now' sid (fst (on_disconnect now sid w)) = (fst (on_disconnect now sid w), [])"
    using removeUser_twice[of sid "storage w"]
    by (auto simp: on_disconnect_def Let_def uuidv4_def split: prod.splits option.splits)
  have d: "on_leaveRoom now' sid (fst (on_leaveRoom now sid w)) = (fst (on_leaveRoom now sid w), [])"
    using removeUser_twice[of sid "storage w"]
    by (auto simp: on_leaveRoom_def Let_def uuidv4_def socket_leave_def split: prod.splits option.splits)
  show ?thesis using a b c d by blast
qed


lemma joined1_facts:
  "sockets (storage joined1) 1 = Some 0"
  "users (storage joined1) 0 = Some user_J1"
  "rooms (storage joined1) ''general'' = Some \<lparr>room_users = [0], room_messages = []\<rparr>"
  "typingUsers (storage joined1) = Map.empty"
  "sio joined1 = ((\<lambda>r. {})(''general'' := {1}))"
  "uuid_next joined1 = 3"
  by (simp_all add: joined1_def ev_join1_def user_J1_def plain_eval)

theorem removeUser_idempotent_witness:
  "sockets (storage joined1) 1 = Some 0 \<and> users (storage joined1) 0 = Some user_J1
   \<and> rooms (storage joined1) (user_room user_J1) \<noteq> None
   \<and> fst (removeUser 1 (storage joined1)) = Some user_J1
   \<and> users (snd (removeUser 1 (storage joined1))) 0 = None
   \<and> sockets (snd (removeUser 1 (storage joined1))) 1 = None
   \<and> removeUser 1 (snd (removeUser 1 (storage joined1))) = (None, snd (removeUser 1 (storage joined1)))"
proof -
  have h: "sockets (storage joined1) 1 = Some 0" "users (storage joined1) 0 = Some user_J1"
    "rooms (storage joined1) (user_room user_J1) \<noteq> None"
    by (rule joined1_facts, rule joined1_facts) (simp add: user_J1_def joined1_facts)
  show ?thesis
    using h removeUser_idempotent [where sid = 1 and st = "storage joined1" and uid = 0
        and u = user_J1]
    by blast
qed

lemma on_joinRoom_strings:
  assumes "un \<noteq> []" and "rn \<noteq> []"
  shows "on_joinRoom now sid (JStr un) (JStr rn) w =
    (let st = snd (addUser (uuid_next w) (trim un) (trim rn) sid (storage w))
     in (w\<lparr>storage := st, sio := (sio w)(rn := insert sid (sio w rn)),
           uuid_next := uuid_next w + 3\<rparr>,
         [\<lparr>em_target = ToSocket sid, em_receivers = {sid},
           em_payload = EvMessage (system_message (uuid_next w + 1)
                          (''Welcome to '' @ rn @ '', '' @ un @ ''!'') now)\<rparr>,
          \<lparr>em_target = ToOthers rn sid, em_receivers = sio w rn - {sid},
           em_payload = EvMessage (system_message (uuid_next w + 2)
                          (un @ '' has joined the chat'') now)\<rparr>,
          \<lparr>em_target = ToSocket sid, em_receivers = {sid},
           em_payload = EvRoomHistory (getRoomMessages rn st)\<rparr>,
          \<lparr>em_target = ToRoom rn, em_receivers = insert sid (sio w rn),
           em_payload = EvOnlineUsers (getUsersInRoom rn st)\<rparr>]))"
  using assms
  by (simp add: on_joinRoom_def Let_def case_prod_beta uuidv4_def socket_join_def emit_def)

text \<open>
  Claim C9. On the plain server a joinRoom whose username is a non-empty string of white
  space only, with any non-empty room, passes the check of the handler: the user is
  registered with the empty string as its name, and the four emissions of a join follow,
  the welcome and the join notice carrying the username as it was sent.
\<close>

theorem blank_username_joins_with_empty_name:
  assumes "un \<noteq> []" and "\<forall>c\<in>set un. is_ws c" and "rn \<noteq> []"
  shows "getUserBySocketId sid (storage (fst (on_joinRoom now sid (JStr un) (JStr rn) w)))
           = Some \<lparr>user_id = uuid_next w, username = [], user_room = trim rn, socketId = sid\<rparr>
         \<and> map em_target (snd (on_joinRoom now sid (JStr un) (JStr rn) w))
           = [ToSocket sid, ToOthers rn sid, ToSocket sid, ToRoom rn]
         \<and> map em_payload (take 2 (snd (on_joinRoom now sid (JStr un) (JStr rn) w)))
           = [EvMessage (system_message (uuid_next w + 1)
                           (''Welcome to '' @ rn @ '', '' @ un @ ''!'') now),
              EvMessage (system_message (uuid_next w + 2) (un @ '' has joined the chat'') now)]"
  using assms
  by (simp add: on_joinRoom_strings Let_def getUserBySocketId_def sockets_addUser users_addUser
        trim_blank)


theorem blank_username_joins_with_empty_name_witness:
  "'' '' \<noteq> [] \<and> is_ws (CHR '' '') \<and> ''general'' \<noteq> []
   \<and> getUserBySocketId 1 (storage (fst (on_joinRoom 0 1 (JStr '' '') (JStr ''general'') world0)))
        = Some \<lparr>user_id = uuid_next world0, username = [], user_room = trim ''general'',
                 socketId = 1\<rparr>
   \<and> map em_target (snd (on_joinRoom 0 1 (JStr '' '') (JStr ''general'') world0))
        = [ToSocket 1, ToOthers ''general'' 1, ToSocket 1, ToRoom ''general'']"
proof -
  have h1: "'' '' \<noteq> []" by simp
  have h2: "\<forall>c\<in>set '' ''. is_ws c" by (simp add: is_ws_def)
  have h3: "''general'' \<noteq> []" by simp
  have h4: "is_ws (CHR '' '')" by (simp add: is_ws_def)
  show ?thesis
    using h1 h3 h4 blank_username_joins_with_empty_name [OF h1 h2 h3, of 1 0 world0]
    by blast
qed

section \<open>System messages and the logs\<close>

lemma log_step_user_only:
  assumes "log_step cap L L'" and "logs_user_only L"
  shows "logs_user_only L'"
  using assms set_keep[of cap]
  by (fastforce simp: log_step_def logs_user_only_def split: if_splits)

lemma run_cap_user_only:
  "logs_user_only (logs (storage w)) \<Longrightarrow> logs_user_only (logs (storage (run_cap cap evs w)))"
proof (induction evs arbitrary: w)
  case Nil
  then show ?case by simp
next
  case (Cons e evs)
  from Cons.prems have "logs_user_only (logs (storage (fst (step_cap cap e w))))"
    using log_step_user_only step_cap_logs by blast
  with Cons show ?case by simp
qed

lemma run_secure_cap_user_only:
  "logs_user_only (logs (storage w)) \<Longrightarrow>
   logs_user_only (logs (storage (run_secure_cap cap xss evs w)))"
proof (induction evs arbitrary: w)
  case Nil
  then show ?case by simp
next
  case (Cons e evs)
  from Cons.prems have "logs_user_only (logs (storage (fst (step_secure_cap cap xss e w))))"
    using log_step_user_only step_secure_cap_logs by blast
  with Cons show ?case by simp
qed

lemma history_user_only:
  "logs_user_only (logs st) \<Longrightarrow> m \<in> set (getRoomMessages r st) \<Longrightarrow> msg_type m = TUser"
  by (cases "logs st r") (auto simp: getRoomMessages_logs logs_user_only_def)

lemma run_cap_snoc: "run_cap cap (evs @ [e]) w = fst (step_cap cap e (run_cap cap evs w))"
  by (induction evs arbitrary: w) simp_all

lemma run_secure_cap_snoc:
  "run_secure_cap cap xss (evs @ [e]) w = fst (step_secure_cap cap xss e (run_secure_cap cap xss evs w))"
  by (induction evs arbitrary: w) simp_all

lemma on_joinRoom_history:
  "em \<in> set (snd (on_joinRoom now sid un rn w)) \<Longrightarrow> em_payload em = EvRoomHistory h \<Longrightarrow>
   \<exists>r. h = getRoomMessages r (storage (fst (on_joinRoom now sid un rn w)))"
  by (auto simp: on_joinRoom_def Let_def case_prod_beta emit_def split: if_splits jsval.splits)

lemma on_joinRoom_secure_history:
  "em \<in> set (snd (on_joinRoom_secure xss now sid un rn w)) \<Longrightarrow> em_payload em = EvRoomHistory h \<Longrightarrow>
   \<exists>r. h = getRoomMessages r (storage (fst (on_joinRoom_secure xss now sid un rn w)))"
  by (auto simp: on_joinRoom_secure_def Let_def case_prod_beta emit_def split: if_splits)

lemma handle_cap_history:
  "em \<in> set (snd (handle_cap cap e w)) \<Longrightarrow> em_payload em = EvRoomHistory h \<Longrightarrow>
   \<exists>r. h = getRoomMessages r (storage (fst (handle_cap cap e w)))"
proof (cases e)
  case (Pair now ev)
  assume a: "em \<in> set (snd (handle_cap cap e w))" "em_payload em = EvRoomHistory h"
  show ?thesis
  proof (cases ev)
    case (JoinRoom sid un rn)
    with Pair a show ?thesis using on_joinRoom_history by (simp add: listener_simps)
  next
    case (SendMessage sid msg)
    with Pair a show ?thesis
      by (auto simp: listener_simps sendMessage_try_cap_def Let_def case_prod_beta emit_def
               split: option.splits if_splits jsval.splits)
  next
    case (Typing sid b)
    with Pair a show ?thesis
      by (auto simp: listener_simps typing_try_def Let_def case_prod_beta emit_def
               split: option.splits)
  next
    case (Bare sid l)
    with Pair a show ?thesis by (cases l) (simp_all add: listener_simps)
  next
    case (Disconnect sid)
    with Pair a show ?thesis
      by (auto simp: on_disconnect_def Let_def case_prod_beta emit_def split: option.splits prod.splits)
  next
    case (LeaveRoom sid)
    with Pair a show ?thesis
      by (auto simp: on_leaveRoom_def Let_def case_prod_beta emit_def split: option.splits prod.splits)
  qed
qed

lemma step_cap_history:
  "em \<in> set (snd (step_cap cap e w)) \<Longrightarrow> em_payload em = EvRoomHistory h \<Longrightarrow>
   \<exists>r. h = getRoomMessages r (storage (fst (step_cap cap e w)))"
  using handle_cap_history[of em cap e w h] by (auto simp: step_cap_def split: if_splits)

lemma dispatch_secure_cap_history:
  assumes "em \<in> set (snd (dispatch_secure_cap cap xss now ip ev w))"
    and "em_payload em = EvRoomHistory h"
  shows "\<exists>r. h = getRoomMessages r (storage (fst (dispatch_secure_cap cap xss now ip ev w)))"
proof (cases ev)
  case (JoinRoom sid un rn)
  with assms show ?thesis using on_joinRoom_secure_history by (simp add: listener_simps)
next
  case (SendMessage sid msg)
  with assms show ?thesis
    by (auto simp: listener_simps sendMessage_secure_try_cap_def Let_def case_prod_beta emit_def
             split: option.splits if_splits jsval.splits)
next
  case (Typing sid b)
  with assms show ?thesis
    by (auto simp: listener_simps typing_try_def Let_def case_prod_beta emit_def
             split: option.splits)
next
  case (Bare sid l)
  with assms show ?thesis by (cases l) (simp_all add: listener_simps)
next
  case (Disconnect sid)
  with assms show ?thesis
    by (auto simp: on_disconnect_secure_def Let_def case_prod_beta emit_def
             split: option.splits prod.splits)
next
  case (LeaveRoom sid)
  with assms show ?thesis
    by (auto simp: on_leaveRoom_def Let_def case_prod_beta emit_def split: option.splits prod.splits)
qed

lemma handle_secure_cap_history:
  assumes "em \<in> set (snd (handle_secure_cap cap xss e w))"
    and "em_payload em = EvRoomHistory h"
  shows "\<exists>r. h = getRoomMessages r (storage (fst (handle_secure_cap cap xss e w)))"
proof (cases e)
  case (Pair now ev)
  show ?thesis
  proof (cases ev)
    case (Connection sid ip)
    with Pair assms show ?thesis
      by (auto simp: on_connection_secure_def Let_def case_prod_beta emit_def split: if_splits)
  next
    case (Inbound x)
    with Pair assms show ?thesis
      using dispatch_secure_cap_history by (auto split: option.splits)
  qed
qed

lemma step_secure_cap_history:
  assumes "em \<in> set (snd (step_secure_cap cap xss e w))"
    and "em_payload em = EvRoomHistory h"
  shows "\<exists>r. h = getRoomMessages r (storage (fst (step_secure_cap cap xss e w)))"
  using assms handle_secure_cap_history[of em cap xss e w h]
  by (auto simp: step_secure_cap_def split: if_splits)

lemma history_logs_eq: "logs st' = logs st \<Longrightarrow> getRoomMessages r st' = getRoomMessages r st"
  by (simp add: getRoomMessages_logs)

lemma on_joinRoom_keeps_history:
  "getRoomMessages r (storage (fst (on_joinRoom now sid un rn w))) = getRoomMessages r (storage w)"
  by (auto simp: on_joinRoom_def Let_def case_prod_beta storage_simps logs_addUser
        getRoomMessages_logs split: jsval.splits option.splits)

text \<open>
  Claim C5. In every state that either server reaches, every message of every room's
  history is of type user, and so is every message of a \<open>roomHistory\<close> event that a
  step emits from such a state. The handlers that emit the system messages (join,
  disconnect, leave) leave every history as it was; the welcome and the join notice of a
  join are emitted with type system.
\<close>

theorem system_messages_never_retained:
  "(\<forall>m\<in>set (getRoomMessages r (storage (run evs world0))). msg_type m = TUser)
   \<and> (\<forall>m\<in>set (getRoomMessages r (storage (run_secure xss sevs sworld0))). msg_type m = TUser)
   \<and> (\<forall>em\<in>set (snd (step e (run evs world0))). \<forall>h. em_payload em = EvRoomHistory h
         \<longrightarrow> (\<forall>m\<in>set h. msg_type m = TUser))
   \<and> (\<forall>em\<in>set (snd (step_secure xss se (run_secure xss sevs sworld0))).
         \<forall>h. em_payload em = EvRoomHistory h \<longrightarrow> (\<forall>m\<in>set h. msg_type m = TUser))
   \<and> getRoomMessages r (storage (fst (on_joinRoom now sid uname rname w)))
        = getRoomMessages r (storage w)
   \<and> getRoomMessages r (storage (fst (on_disconnect now sid w))) = getRoomMessages r (storage w)
   \<and> getRoomMessages r (storage (fst (on_leaveRoom now sid w))) = getRoomMessages r (storage w)
   \<and> (un \<noteq> [] \<and> rn \<noteq> [] \<longrightarrow>
        map em_payload (take 2 (snd (on_joinRoom now sid (JStr un) (JStr rn) w)))
          = [EvMessage \<lparr>msg_id = uuid_next w + 1, msg_username = ''System'',
                        msg_message = ''Welcome to '' @ rn @ '', '' @ un @ ''!'',
                        msg_timestamp = now, msg_type = TSystem\<rparr>,
             EvMessage \<lparr>msg_id = uuid_next w + 2, msg_username = ''System'',
                        msg_message = un @ '' has joined the chat'',
                        msg_timestamp = now, msg_type = TSystem\<rparr>])"
proof -
  have u0: "logs_user_only (logs (storage world0))" "logs_user_only (logs (storage sworld0))"
    by (simp_all add: logs_world0 logs_sworld0 logs_user_only_def)
  have p: "logs_user_only (logs (storage (run_cap 100 es world0)))" for es
    using u0 by (simp add: run_cap_user_only)
  have s: "logs_user_only (logs (storage (run_secure_cap 50 xss es sworld0)))" for es
    using u0 by (simp add: run_secure_cap_user_only)
  have a: "\<forall>m\<in>set (getRoomMessages r (storage (run evs world0))). msg_type m = TUser"
    using p[of evs] history_user_only unfolding run_def by blast
  have b: "\<forall>m\<in>set (getRoomMessages r (storage (run_secure xss sevs sworld0))). msg_type m = TUser"
    using s[of sevs] history_user_only unfolding run_secure_def by blast
  have c: "\<forall>em\<in>set (snd (step e (run evs world0))). \<forall>h. em_payload em = EvRoomHistory h
         \<longrightarrow> (\<forall>m\<in>set h. msg_type m = TUser)"
  proof (intro ballI allI impI)
    fix em h m
    assume "em \<in> set (snd (step e (run evs world0)))" "em_payload em = EvRoomHistory h" "m \<in> set h"
    then obtain r' where "h = getRoomMessages r' (storage (fst (step_cap 100 e (run_cap 100 evs world0))))"
      using step_cap_history unfolding step_def run_def by blast
    with p[of "evs @ [e]"] \<open>m \<in> set h\<close> show "msg_type m = TUser"
      using history_user_only by (simp add: run_cap_snoc) blast
  qed
  have d: "\<forall>em\<in>set (snd (step_secure xss se (run_secure xss sevs sworld0))).
         \<forall>h. em_payload em = EvRoomHistory h \<longrightarrow> (\<forall>m\<in>set h. msg_type m = TUser)"
  proof (intro ballI allI impI)
    fix em h m
    assume "em \<in> set (snd (step_secure xss se (run_secure xss sevs sworld0)))"
      "em_payload em = EvRoomHistory h" "m \<in> set h"
    then obtain r' where "h = getRoomMessages r'
        (storage (fst (step_secure_cap 50 xss se (run_secure_cap 50 xss sevs sworld0))))"
      using step_secure_cap_history unfolding step_secure_def run_secure_def by blast
    with s[of "sevs @ [se]"] \<open>m \<in> set h\<close> show "msg_type m = TUser"
      using history_user_only by (simp add: run_secure_cap_snoc) blast
  qed
  have f: "getRoomMessages r (storage (fst (on_disconnect now sid w))) = getRoomMessages r (storage w)"
    by (rule history_logs_eq) (rule on_disconnect_logs)
  have g: "getRoomMessages r (storage (fst (on_leaveRoom now sid w))) = getRoomMessages r (storage w)"
    by (rule history_logs_eq) (rule on_leaveRoom_logs)
  have h: "un \<noteq> [] \<and> rn \<noteq> [] \<longrightarrow>
        map em_payload (take 2 (snd (on_joinRoom now sid (JStr un) (JStr rn) w)))
          = [EvMessage \<lparr>msg_id = uuid_next w + 1, msg_username = ''System'',
                        msg_message = ''Welcome to '' @ rn @ '', '' @ un @ ''!'',
                        msg_timestamp = now, msg_type = TSystem\<rparr>,
             EvMessage \<lparr>msg_id = uuid_next w + 2, msg_username = ''System'',
                        msg_message = un @ '' has joined the chat'',
                        msg_timestamp = now, msg_type = TSystem\<rparr>]"
    by (simp add: on_joinRoom_strings Let_def system_message_def)
  show ?thesis
    using a b c d on_joinRoom_keeps_history f g h by blast
qed

lemma hello_history:
  "getRoomMessages ''general'' (storage (run [ev_join1, ev_hello] world0)) = [msg_hello]"
  by (simp add: ev_join1_def ev_hello_def msg_hello_def plain_eval)

lemma hello_history_secure:
  "getRoomMessages ''general'' (storage (run_secure id secure_hello sworld0)) = [msg_hello]"
  by (simp add: secure_hello_def ev_join1_def ev_hello_def msg_hello_def secure_eval
        sendMessage_secure_try_cap_def addMessage_secure_cap_def getUserBySocketId_def
        getRoomMessages_def slice_last_def)

lemma hello_join2_history:
  "\<lparr>em_target = ToSocket 2, em_receivers = {2}, em_payload = EvRoomHistory [msg_hello]\<rparr>
     \<in> set (snd (step ev_join2 (run [ev_join1, ev_hello] world0)))"
  by (simp add: step_def ev_join2_def ev_join1_def ev_hello_def msg_hello_def plain_eval)

theorem system_messages_never_retained_witness:
  "msg_hello \<in> set (getRoomMessages ''general'' (storage (run [ev_join1, ev_hello] world0)))
   \<and> msg_hello \<in> set (getRoomMessages ''general'' (storage (run_secure id secure_hello sworld0)))
   \<and> \<lparr>em_target = ToSocket 2, em_receivers = {2}, em_payload = EvRoomHistory [msg_hello]\<rparr>
        \<in> set (snd (step ev_join2 (run [ev_join1, ev_hello] world0)))
   \<and> msg_hello \<in> set [msg_hello]
   \<and> msg_type msg_hello = TUser
   \<and> ''J2'' \<noteq> [] \<and> ''general'' \<noteq> []
   \<and> map em_payload (take 2 (snd (on_joinRoom 2 2 (JStr ''J2'') (JStr ''general'')
          (run [ev_join1, ev_hello] world0))))
       = [EvMessage \<lparr>msg_id = uuid_next (run [ev_join1, ev_hello] world0) + 1,
                     msg_username = ''System'',
                     msg_message = ''Welcome to '' @ ''general'' @ '', '' @ ''J2'' @ ''!'',
                     msg_timestamp = 2, msg_type = TSystem\<rparr>,
          EvMessage \<lparr>msg_id = uuid_next (run [ev_join1, ev_hello] world0) + 2,
                     msg_username = ''System'',
                     msg_message = ''J2'' @ '' has joined the chat'',
                     msg_timestamp = 2, msg_type = TSystem\<rparr>]"
proof -
  have h1: "msg_hello \<in> set (getRoomMessages ''general'' (storage (run [ev_join1, ev_hello] world0)))"
    by (simp add: hello_history)
  have h2: "msg_hello \<in> set (getRoomMessages ''general'' (storage (run_secure id secure_hello sworld0)))"
    by (simp add: hello_history_secure)
  have h3: "''J2'' \<noteq> []" "''general'' \<noteq> []" "msg_hello \<in> set [msg_hello]"
    by simp_all
  have h4: "em_payload \<lparr>em_target = ToSocket 2, em_receivers = {2},
                em_payload = EvRoomHistory [msg_hello]\<rparr> = EvRoomHistory [msg_hello]"
    by simp
  show ?thesis
    using h1 h2 h3 h4 hello_join2_history
      system_messages_never_retained [where r = "''general''" and evs = "[ev_join1, ev_hello]"
        and xss = id and sevs = secure_hello and un = "''J2''" and rn = "''general''"
        and now = 2 and sid = 2 and w = "run [ev_join1, ev_hello] world0" and e = ev_join2]
    by blast
qed

section \<open>Sessions and identities\<close>

lemma removeUser_cases:
  "(fst (removeUser sid st) = None \<and> snd (removeUser sid st) = st)
   \<or> (\<exists>uid u. sockets st sid = Some uid \<and> users st uid = Some u
         \<and> fst (removeUser sid st) = Some u
         \<and> users (snd (removeUser sid st)) = (users st)(uid := None)
         \<and> sockets (snd (removeUser sid st)) = (sockets st)(sid := None))"
  by (auto simp: removeUser_def Let_def split: option.splits)

lemma users_setTyping: "users (snd (setTyping i r b st)) = users st"
  by (simp add: setTyping_def Let_def)

lemma sockets_setTyping: "sockets (snd (setTyping i r b st)) = sockets st"
  by (simp add: setTyping_def Let_def)

lemma users_addMessage_cap: "users (addMessage_cap cap r m st) = users st"
  by (simp add: addMessage_cap_def Let_def split: option.splits)

lemma sockets_addMessage_cap: "sockets (addMessage_cap cap r m st) = sockets st"
  by (simp add: addMessage_cap_def Let_def split: option.splits)

lemma consistent_mono:
  assumes "session_consistent w" and "storage w' = storage w" and "uuid_next w \<le> uuid_next w'"
  shows "session_consistent w'"
  using assms by (fastforce simp: session_consistent_def)

lemma consistentD1:
  "session_consistent w \<Longrightarrow> users (storage w) uid = Some u \<Longrightarrow> user_id u = uid \<and> uid < uuid_next w"
  unfolding session_consistent_def by blast

lemma consistentD2:
  "session_consistent w \<Longrightarrow> sockets (storage w) sid = Some uid \<Longrightarrow>
   \<exists>u. users (storage w) uid = Some u \<and> socketId u = sid"
  unfolding session_consistent_def by blast

lemma consistent_addUser:
  assumes "session_consistent w"
    and "users (storage w') = (users (storage w))(uuid_next w \<mapsto>
            \<lparr>user_id = uuid_next w, username = un, user_room = rn, socketId = sid\<rparr>)"
    and "sockets (storage w') = (sockets (storage w))(sid \<mapsto> uuid_next w)"
    and "uuid_next w < uuid_next w'"
  shows "session_consistent w'"
proof -
  have a: "user_id u = uid \<and> uid < uuid_next w'" if "users (storage w') uid = Some u" for uid u
    using that assms by (fastforce simp: session_consistent_def split: if_splits)
  have b: "\<exists>u. users (storage w') uid = Some u \<and> socketId u = s"
    if a: "sockets (storage w') s = Some uid" for s uid
  proof (cases "s = sid")
    case True
    with a assms(2,3) show ?thesis by simp
  next
    case False
    with a assms(3) have "sockets (storage w) s = Some uid" by simp
    with assms(1) obtain u where u: "users (storage w) uid = Some u" "socketId u = s"
      using consistentD2 by blast
    with assms(1) have "uid < uuid_next w" using consistentD1 by blast
    with u assms(2) show ?thesis by simp
  qed
  from a b show ?thesis unfolding session_consistent_def by blast
qed

lemma consistent_removeUser:
  assumes "session_consistent w"
    and "sockets (storage w) sid = Some uid"
    and "users (storage w') = (users (storage w))(uid := None)"
    and "sockets (storage w') = (sockets (storage w))(sid := None)"
    and "uuid_next w \<le> uuid_next w'"
  shows "session_consistent w'"
proof -
  have a: "user_id u = i \<and> i < uuid_next w'" if "users (storage w') i = Some u" for i u
    using that assms by (fastforce simp: session_consistent_def split: if_splits)
  have b: "\<exists>u. users (storage w') i = Some u \<and> socketId u = s"
    if a: "sockets (storage w') s = Some i" for s i
  proof -
    from a assms(4) have s: "s \<noteq> sid" "sockets (storage w) s = Some i"
      by (auto split: if_splits)
    with assms(1) obtain u where u: "users (storage w) i = Some u" "socketId u = s"
      using consistentD2 by blast
    have "i \<noteq> uid"
    proof
      assume "i = uid"
      with assms(1,2) u have "socketId u = sid" using consistentD2 by fastforce
      with u s show False by simp
    qed
    with u assms(3) show ?thesis by simp
  qed
  from a b show ?thesis unfolding session_consistent_def by blast
qed

lemma on_joinRoom_consistent:
  assumes "session_consistent w"
  shows "session_consistent (fst (on_joinRoom now sid un rn w))"
proof (cases "\<exists>u r. un = JStr u \<and> rn = JStr r \<and> u \<noteq> [] \<and> r \<noteq> []")
  case True
  then obtain u r where s: "un = JStr u" "rn = JStr r" "u \<noteq> []" "r \<noteq> []" by blast
  show ?thesis
    unfolding s
    by (rule consistent_addUser[OF assms, where un = "trim u" and rn = "trim r" and sid = sid])
       (simp_all add: on_joinRoom_strings s Let_def users_addUser sockets_addUser)
next
  case False
  then have "storage (fst (on_joinRoom now sid un rn w)) = storage w
        \<and> uuid_next w \<le> uuid_next (fst (on_joinRoom now sid un rn w))"
    by (auto simp: on_joinRoom_def Let_def uuidv4_def split: jsval.splits)
  with assms show ?thesis using consistent_mono by blast
qed

lemma sendMessage_try_cap_consistent:
  assumes "session_consistent w"
  shows "session_consistent (fst (sendMessage_try_cap cap now sid msg w))"
  using assms
  by (auto simp: sendMessage_try_cap_def Let_def uuidv4_def session_consistent_def
        users_addMessage_cap sockets_addMessage_cap
        split: option.splits jsval.splits) fastforce+

lemma typing_try_consistent:
  assumes "session_consistent w"
  shows "session_consistent (fst (typing_try sid b w))"
  using assms
  by (auto simp: typing_try_def Let_def case_prod_beta session_consistent_def
        users_setTyping sockets_setTyping split: option.splits)

lemma on_disconnect_consistent:
  assumes "session_consistent w"
  shows "session_consistent (fst (on_disconnect now sid w))"
proof -
  from removeUser_cases[of sid "storage w"] show ?thesis
  proof
    assume "fst (removeUser sid (storage w)) = None \<and> snd (removeUser sid (storage w)) = storage w"
    then have "fst (on_disconnect now sid w) = w"
      by (cases "removeUser sid (storage w)") (simp add: on_disconnect_def)
    with assms show ?thesis by simp
  next
    assume "\<exists>uid u. sockets (storage w) sid = Some uid \<and> users (storage w) uid = Some u
         \<and> fst (removeUser sid (storage w)) = Some u
         \<and> users (snd (removeUser sid (storage w))) = (users (storage w))(uid := None)
         \<and> sockets (snd (removeUser sid (storage w))) = (sockets (storage w))(sid := None)"
    then obtain uid u where r: "sockets (storage w) sid = Some uid"
         "fst (removeUser sid (storage w)) = Some u"
         "users (snd (removeUser sid (storage w))) = (users (storage w))(uid := None)"
         "sockets (snd (removeUser sid (storage w))) = (sockets (storage w))(sid := None)"
      by blast
    show ?thesis
      by (rule consistent_removeUser[OF assms r(1)])
         (cases "removeUser sid (storage w)", use r in \<open>simp add: on_disconnect_def Let_def uuidv4_def\<close>)+
  qed
qed

lemma on_leaveRoom_consistent:
  assumes "session_consistent w"
  shows "session_consistent (fst (on_leaveRoom now sid w))"
proof -
  from removeUser_cases[of sid "storage w"] show ?thesis
  proof
    assume "fst (removeUser sid (storage w)) = None \<and> snd (removeUser sid (storage w)) = storage w"
    then have "fst (on_leaveRoom now sid w) = w"
      by (cases "removeUser sid (storage w)") (simp add: on_leaveRoom_def)
    with assms show ?thesis by simp
  next
    assume "\<exists>uid u. sockets (storage w) sid = Some uid \<and> users (storage w) uid = Some u
         \<and> fst (removeUser sid (storage w)) = Some u
         \<and> users (snd (removeUser sid (storage w))) = (users (storage w))(uid := None)
         \<and> sockets (snd (removeUser sid (storage w))) = (sockets (storage w))(sid := None)"
    then obtain uid u where r: "sockets (storage w) sid = Some uid"
         "fst (removeUser sid (storage w)) = Some u"
         "users (snd (removeUser sid (storage w))) = (users (storage w))(uid := None)"
         "sockets (snd (removeUser sid (storage w))) = (sockets (storage w))(sid := None)"
      by blast
    show ?thesis
      by (rule consistent_removeUser[OF assms r(1)])
         (cases "removeUser sid (storage w)", use r in \<open>simp add: on_leaveRoom_def Let_def uuidv4_def socket_leave_def\<close>)+
  qed
qed

lemma handle_cap_consistent:
  assumes "session_consistent w"
  shows "session_consistent (fst (handle_cap cap e w))"
proof (cases e)
  case (Pair now ev)
  have l: "session_consistent (socket_leave_all sid w)" for sid
    using assms by (simp add: session_consistent_def socket_leave_all_def)
  have u: "session_consistent (fst (uncaught w))"
    using assms by (simp add: session_consistent_def uncaught_def)
  show ?thesis
  proof (cases ev)
    case (Bare sid li)
    with Pair u show ?thesis by (cases li) (simp_all add: listeners_absent)
  qed (use assms l Pair in \<open>simp_all add: listeners_given on_joinRoom_consistent
          sendMessage_try_cap_consistent typing_try_consistent
          on_disconnect_consistent on_leaveRoom_consistent\<close>)
qed

lemma step_cap_consistent:
  assumes "session_consistent w"
  shows "session_consistent (fst (step_cap cap e w))"
  using assms by (simp add: step_cap_def handle_cap_consistent)

lemma run_cap_consistent:
  "session_consistent w \<Longrightarrow> session_consistent (run_cap cap evs w)"
  by (induction evs arbitrary: w) (simp_all add: step_cap_consistent)

lemma world0_consistent: "session_consistent world0"
  by (simp add: session_consistent_def world0_def storage0_def)

lemma rejoin_users:
  "users (storage (run [ev_join1, ev_rejoin1] world0)) 0
     = Some \<lparr>user_id = 0, username = ''J1'', user_room = ''general'', socketId = 1\<rparr>"
  "users (storage (run [ev_join1, ev_rejoin1] world0)) 3
     = Some \<lparr>user_id = 3, username = ''J1b'', user_room = ''general'', socketId = 1\<rparr>"
  by (simp_all add: ev_join1_def ev_rejoin1_def plain_eval)

text \<open>
  Claim C3, as stated, fails: after two joinRoom events on connection 1 the users hold two
  identities, 0 and 3, that both carry socket id 1.
\<close>

theorem second_join_two_identities_one_socket:
  "users (storage (run [ev_join1, ev_rejoin1] world0)) 0
     = Some \<lparr>user_id = 0, username = ''J1'', user_room = ''general'', socketId = 1\<rparr>
   \<and> users (storage (run [ev_join1, ev_rejoin1] world0)) 3
     = Some \<lparr>user_id = 3, username = ''J1b'', user_room = ''general'', socketId = 1\<rparr>
   \<and> \<not> spec_one_identity_per_session (storage (run [ev_join1, ev_rejoin1] world0))"
proof -
  have "\<not> spec_one_identity_per_session (storage (run [ev_join1, ev_rejoin1] world0))"
  proof
    assume "spec_one_identity_per_session (storage (run [ev_join1, ev_rejoin1] world0))"
    then have "(0::nat) = 3"
      unfolding spec_one_identity_per_session_def using rejoin_users
      by (metis user.select_convs(4))
    then show False by simp
  qed
  with rejoin_users show ?thesis by simp
qed

text \<open>
  Claim C3, amended. In every state that the plain server reaches, every connection in
  the session map refers to one identity, which is registered under that identifier and
  carries the socket id of that connection. A joinRoom with non-empty names on a
  connection is not refused when the connection has an identity already: it registers a
  fresh identity and points the connection to it, and every identity registered before,
  that connection's own included, stays registered.
\<close>

theorem session_map_consistent:
  "(\<forall>sid uid. sockets (storage (run evs world0)) sid = Some uid \<longrightarrow>
       (\<exists>u. users (storage (run evs world0)) uid = Some u \<and> user_id u = uid \<and> socketId u = sid))
   \<and> (un \<noteq> [] \<and> rn \<noteq> [] \<and> users (storage (run evs world0)) uid = Some u \<longrightarrow>
        users (storage (fst (on_joinRoom now sid (JStr un) (JStr rn) (run evs world0)))) uid = Some u
        \<and> uid \<noteq> uuid_next (run evs world0)
        \<and> getUserBySocketId sid
             (storage (fst (on_joinRoom now sid (JStr un) (JStr rn) (run evs world0))))
           = Some \<lparr>user_id = uuid_next (run evs world0), username = trim un,
                    user_room = trim rn, socketId = sid\<rparr>)"
proof -
  have c: "session_consistent (run evs world0)"
    unfolding run_def by (rule run_cap_consistent) (rule world0_consistent)
  have a: "\<forall>sid uid. sockets (storage (run evs world0)) sid = Some uid \<longrightarrow>
       (\<exists>u. users (storage (run evs world0)) uid = Some u \<and> user_id u = uid \<and> socketId u = sid)"
    using consistentD1[OF c] consistentD2[OF c] by blast
  have b: "users (storage (fst (on_joinRoom now sid (JStr un) (JStr rn) (run evs world0)))) uid = Some u
        \<and> uid \<noteq> uuid_next (run evs world0)
        \<and> getUserBySocketId sid
             (storage (fst (on_joinRoom now sid (JStr un) (JStr rn) (run evs world0))))
           = Some \<lparr>user_id = uuid_next (run evs world0), username = trim un,
                    user_room = trim rn, socketId = sid\<rparr>"
    if h: "un \<noteq> []" "rn \<noteq> []" "users (storage (run evs world0)) uid = Some u"
  proof -
    from consistentD1[OF c h(3)] have "uid \<noteq> uuid_next (run evs world0)" by simp
    with h show ?thesis
      by (simp add: on_joinRoom_strings Let_def users_addUser sockets_addUser getUserBySocketId_def)
  qed
  from a b show ?thesis by blast
qed

theorem session_map_consistent_witness:
  "sockets (storage (run [ev_join1] world0)) 1 = Some 0
   \<and> ''J1b'' \<noteq> [] \<and> ''general'' \<noteq> []
   \<and> users (storage (run [ev_join1] world0)) 0 = Some user_J1
   \<and> (\<exists>u. users (storage (run [ev_join1] world0)) 0 = Some u \<and> user_id u = 0 \<and> socketId u = 1)
   \<and> users (storage (fst (on_joinRoom 5 1 (JStr ''J1b'') (JStr ''general'')
          (run [ev_join1] world0)))) 0 = Some user_J1
   \<and> getUserBySocketId 1 (storage (fst (on_joinRoom 5 1 (JStr ''J1b'') (JStr ''general'')
          (run [ev_join1] world0))))
       = Some \<lparr>user_id = uuid_next (run [ev_join1] world0), username = trim ''J1b'',
                user_room = trim ''general'', socketId = 1\<rparr>"
proof -
  have h: "sockets (storage (run [ev_join1] world0)) 1 = Some 0"
     "users (storage (run [ev_join1] world0)) 0 = Some user_J1"
    using joined1_facts(1,2) unfolding joined1_def by blast+
  have n: "''J1b'' \<noteq> []" "''general'' \<noteq> []" by simp_all
  show ?thesis
    using h n session_map_consistent [where evs = "[ev_join1]" and un = "''J1b''"
        and rn = "''general''" and uid = 0 and u = user_J1 and now = 5 and sid = 1]
    by blast
qed

section \<open>Validation of a joinRoom\<close>

lemma invalid_J1_bang: "\<not> isValidUsername id (JStr ''J1!'')"
  by (simp add: isValidUsername_def sanitizeInput_def trim_def is_ws_def name_regex_test_def
        is_name_char_def)

lemma invalid_long: "\<not> isValidUsername id (JStr ''aaaaaaaaaaaaaaaaaaaaa'')"
  by (simp add: isValidUsername_def sanitizeInput_def trim_def is_ws_def name_regex_test_def
        is_name_char_def)

text \<open>
  Claim C7, as stated, fails on the plain server: a username with a character outside
  the permitted class, and one of 21 characters, both refused by the validator of the
  hardened server, are registered by the joinRoom of server.js.
\<close>

theorem plain_join_accepts_malformed_name:
  "\<not> isValidUsername id (JStr ''J1!'')
   \<and> getUserBySocketId 1 (storage (fst (on_joinRoom 0 1 (JStr ''J1!'') (JStr ''general'') world0)))
       = Some \<lparr>user_id = 0, username = ''J1!'', user_room = ''general'', socketId = 1\<rparr>
   \<and> \<not> isValidUsername id (JStr ''aaaaaaaaaaaaaaaaaaaaa'')
   \<and> getUserBySocketId 1 (storage (fst (on_joinRoom 0 1 (JStr ''aaaaaaaaaaaaaaaaaaaaa'')
          (JStr ''general'') world0)))
       = Some \<lparr>user_id = 0, username = ''aaaaaaaaaaaaaaaaaaaaa'', user_room = ''general'',
                socketId = 1\<rparr>"
  by (simp add: invalid_J1_bang invalid_long on_joinRoom_strings Let_def getUserBySocketId_def
        sockets_addUser users_addUser world0_def trim_def is_ws_def)

text \<open>
  Claim C7, amended. On the hardened server a joinRoom whose username fails
  \<open>isValidUsername\<close> or whose room fails \<open>isValidRoomName\<close> is answered with one error
  event to the sending connection alone and leaves the state as it is. The plain server
  checks only that both fields are truthy: with a falsy field it answers with one error
  event to the sender and leaves the state as it is, and with truthy fields of which one
  is not a string it answers with the error of its catch clause and leaves the storage
  and the rooms of the connections as they are.
\<close>

theorem join_validation:
  "(\<not> isValidUsername xss uname \<or> \<not> isValidRoomName xss rname \<longrightarrow>
      on_joinRoom_secure xss now sid uname rname sw
        = (sw, [\<lparr>em_target = ToSocket sid, em_receivers = {sid},
                 em_payload = EvError ''Invalid username or room name''\<rparr>]))
   \<and> (\<not> truthy uname \<or> \<not> truthy rname \<longrightarrow>
      on_joinRoom now sid uname rname w
        = (w, [\<lparr>em_target = ToSocket sid, em_receivers = {sid},
                em_payload = EvError ''Username and room are required''\<rparr>]))
   \<and> (truthy uname \<and> truthy rname \<and> ((\<forall>s. uname \<noteq> JStr s) \<or> (\<forall>s. rname \<noteq> JStr s)) \<longrightarrow>
      storage (fst (on_joinRoom now sid uname rname w)) = storage w
      \<and> sio (fst (on_joinRoom now sid uname rname w)) = sio w
      \<and> snd (on_joinRoom now sid uname rname w)
        = [\<lparr>em_target = ToSocket sid, em_receivers = {sid},
            em_payload = EvError ''Failed to join room''\<rparr>])"
proof -
  have a: "\<not> isValidUsername xss uname \<or> \<not> isValidRoomName xss rname \<longrightarrow>
      on_joinRoom_secure xss now sid uname rname sw
        = (sw, [\<lparr>em_target = ToSocket sid, em_receivers = {sid},
                 em_payload = EvError ''Invalid username or room name''\<rparr>])"
    by (simp add: on_joinRoom_secure_def emit_def)
  have b: "\<not> truthy uname \<or> \<not> truthy rname \<longrightarrow>
      on_joinRoom now sid uname rname w
        = (w, [\<lparr>em_target = ToSocket sid, em_receivers = {sid},
                em_payload = EvError ''Username and room are required''\<rparr>])"
    by (simp add: on_joinRoom_def emit_def)
  have c: "truthy uname \<and> truthy rname \<and> ((\<forall>s. uname \<noteq> JStr s) \<or> (\<forall>s. rname \<noteq> JStr s)) \<longrightarrow>
      storage (fst (on_joinRoom now sid uname rname w)) = storage w
      \<and> sio (fst (on_joinRoom now sid uname rname w)) = sio w
      \<and> snd (on_joinRoom now sid uname rname w)
        = [\<lparr>em_target = ToSocket sid, em_receivers = {sid},
            em_payload = EvError ''Failed to join room''\<rparr>]"
    by (cases uname; cases rname) (simp_all add: on_joinRoom_def emit_def uuidv4_def)
  from a b c show ?thesis by blast
qed

theorem join_validation_witness:
  "\<not> isValidUsername id (JStr ''J1!'')
   \<and> \<not> truthy (JStr [])
   \<and> truthy (JNum 5) \<and> truthy (JStr ''general'') \<and> (\<forall>s. JNum 5 \<noteq> JStr s)
   \<and> on_joinRoom_secure id 0 1 (JStr ''J1!'') (JStr ''general'') sworld0
        = (sworld0, [\<lparr>em_target = ToSocket 1, em_receivers = {1},
                 em_payload = EvError ''Invalid username or room name''\<rparr>])
   \<and> on_joinRoom 0 1 (JStr []) (JStr ''general'') world0
        = (world0, [\<lparr>em_target = ToSocket 1, em_receivers = {1},
                em_payload = EvError ''Username and room are required''\<rparr>])
   \<and> storage (fst (on_joinRoom 0 1 (JNum 5) (JStr ''general'') world0)) = storage world0
   \<and> snd (on_joinRoom 0 1 (JNum 5) (JStr ''general'') world0)
        = [\<lparr>em_target = ToSocket 1, em_receivers = {1},
            em_payload = EvError ''Failed to join room''\<rparr>]"
proof -
  have h: "\<not> truthy (JStr [])" "truthy (JNum 5)" "truthy (JStr ''general'')"
     "\<forall>s. JNum 5 \<noteq> JStr s"
    by simp_all
  show ?thesis
    using h invalid_J1_bang
      join_validation [where xss = id and uname = "JStr ''J1!''" and rname = "JStr ''general''"
        and now = 0 and sid = 1 and sw = sworld0]
      join_validation [where uname = "JStr []" and rname = "JStr ''general''"
        and now = 0 and sid = 1 and w = world0]
      join_validation [where uname = "JNum 5" and rname = "JStr ''general''"
        and now = 0 and sid = 1 and w = world0]
    by blast
qed

section \<open>The emissions of a join\<close>

lemma map_filter_member: "x \<in> set xs \<Longrightarrow> f x = Some y \<Longrightarrow> y \<in> set (List.map_filter f xs)"
  by (force simp: List.map_filter_def)

lemma join_emissions_trimmed_room:
  assumes "un \<noteq> []" and "rn \<noteq> []" and "trim rn = rn"
  shows "snd (on_joinRoom now sid (JStr un) (JStr rn) w) =
      [\<lparr>em_target = ToSocket sid, em_receivers = {sid},
        em_payload = EvMessage (system_message (uuid_next w + 1)
                       (''Welcome to '' @ rn @ '', '' @ un @ ''!'') now)\<rparr>,
       \<lparr>em_target = ToOthers rn sid, em_receivers = sio w rn - {sid},
        em_payload = EvMessage (system_message (uuid_next w + 2)
                       (un @ '' has joined the chat'') now)\<rparr>,
       \<lparr>em_target = ToSocket sid, em_receivers = {sid},
        em_payload = EvRoomHistory (getRoomMessages rn (storage w))\<rparr>,
       \<lparr>em_target = ToRoom rn, em_receivers = insert sid (sio w rn),
        em_payload = EvOnlineUsers
          (getUsersInRoom rn (storage (fst (on_joinRoom now sid (JStr un) (JStr rn) w))))\<rparr>]"
    and "\<lparr>user_id = uuid_next w, username = trim un, user_room = rn, socketId = sid\<rparr>
          \<in> set (getUsersInRoom rn (storage (fst (on_joinRoom now sid (JStr un) (JStr rn) w))))"
proof -
  let ?st = "snd (addUser (uuid_next w) (trim un) (trim rn) sid (storage w))"
  have h: "getRoomMessages rn ?st = getRoomMessages rn (storage w)"
    by (simp add: getRoomMessages_logs logs_addUser assms split: option.splits)
  show "snd (on_joinRoom now sid (JStr un) (JStr rn) w) =
      [\<lparr>em_target = ToSocket sid, em_receivers = {sid},
        em_payload = EvMessage (system_message (uuid_next w + 1)
                       (''Welcome to '' @ rn @ '', '' @ un @ ''!'') now)\<rparr>,
       \<lparr>em_target = ToOthers rn sid, em_receivers = sio w rn - {sid},
        em_payload = EvMessage (system_message (uuid_next w + 2)
                       (un @ '' has joined the chat'') now)\<rparr>,
       \<lparr>em_target = ToSocket sid, em_receivers = {sid},
        em_payload = EvRoomHistory (getRoomMessages rn (storage w))\<rparr>,
       \<lparr>em_target = ToRoom rn, em_receivers = insert sid (sio w rn),
        em_payload = EvOnlineUsers
          (getUsersInRoom rn (storage (fst (on_joinRoom now sid (JStr un) (JStr rn) w))))\<rparr>]"
    using assms h by (simp add: on_joinRoom_strings Let_def)
  show "\<lparr>user_id = uuid_next w, username = trim un, user_room = rn, socketId = sid\<rparr>
          \<in> set (getUsersInRoom rn (storage (fst (on_joinRoom now sid (JStr un) (JStr rn) w))))"
    using assms
    by (auto simp: on_joinRoom_strings Let_def getUsersInRoom_def rooms_addUser users_addUser
          set_add_def intro!: map_filter_member split: option.splits)
qed

lemma scenario_A:
  "snd (step ev_join1 world0) =
     [\<lparr>em_target = ToSocket 1, em_receivers = {1},
       em_payload = EvMessage (system_message 1 ''Welcome to general, J1!'' 0)\<rparr>,
      \<lparr>em_target = ToOthers ''general'' 1, em_receivers = {},
       em_payload = EvMessage (system_message 2 ''J1 has joined the chat'' 0)\<rparr>,
      \<lparr>em_target = ToSocket 1, em_receivers = {1}, em_payload = EvRoomHistory []\<rparr>,
      \<lparr>em_target = ToRoom ''general'', em_receivers = {1},
       em_payload = EvOnlineUsers [user_J1]\<rparr>]"
  "snd (step ev_join2_early (run [ev_join1] world0)) =
     [\<lparr>em_target = ToSocket 2, em_receivers = {2},
       em_payload = EvMessage (system_message 4 ''Welcome to general, J2!'' 1)\<rparr>,
      \<lparr>em_target = ToOthers ''general'' 2, em_receivers = {1},
       em_payload = EvMessage (system_message 5 ''J2 has joined the chat'' 1)\<rparr>,
      \<lparr>em_target = ToSocket 2, em_receivers = {2}, em_payload = EvRoomHistory []\<rparr>,
      \<lparr>em_target = ToRoom ''general'', em_receivers = {1, 2},
       em_payload = EvOnlineUsers [user_J1, user_J2]\<rparr>]"
  by (simp_all add: step_def ev_join1_def ev_join2_early_def user_J1_def user_J2_def plain_eval
        getUsersInRoom_def system_message_def insert_commute)

text \<open>
  Claim C8 does not hold for a room name with white space around it. Connection 1 has
  joined the room general and sent hello; connection 2 joins with the room name written
  with a leading space. The user is stored in the room general, yet the history sent
  to the sender is empty, the online users sent are the empty list and reach the sender
  alone, and the join notice reaches nobody. For a room name that \<open>trim\<close> leaves as it is,
  the emissions are those of the claim (\<open>join_emissions_trimmed_room\<close>, \<open>scenario_A\<close>).
\<close>

theorem join_with_padded_room_name:
  "snd (step ev_join2_padded (run [ev_join1, ev_hello] world0)) =
     [\<lparr>em_target = ToSocket 2, em_receivers = {2},
       em_payload = EvMessage (system_message 5 ''Welcome to  general, J2!'' 2)\<rparr>,
      \<lparr>em_target = ToOthers '' general'' 2, em_receivers = {},
       em_payload = EvMessage (system_message 6 ''J2 has joined the chat'' 2)\<rparr>,
      \<lparr>em_target = ToSocket 2, em_receivers = {2}, em_payload = EvRoomHistory []\<rparr>,
      \<lparr>em_target = ToRoom '' general'', em_receivers = {2}, em_payload = EvOnlineUsers []\<rparr>]
   \<and> getRoomMessages ''general''
        (storage (fst (step ev_join2_padded (run [ev_join1, ev_hello] world0)))) = [msg_hello]
   \<and> getUsersInRoom ''general''
        (storage (fst (step ev_join2_padded (run [ev_join1, ev_hello] world0))))
       = [user_J1, \<lparr>user_id = 4, username = ''J2'', user_room = ''general'', socketId = 2\<rparr>]"
  by (simp add: step_def ev_join1_def ev_hello_def ev_join2_padded_def user_J1_def msg_hello_def
        plain_eval getUsersInRoom_def system_message_def)

section \<open>The typing sets\<close>











lemma typing_in_leave_all: "typing_in r (socket_leave_all sid w) = typing_in r w"
  by (simp add: typing_in_def socket_leave_all_def)

lemma storage_leave_all_fields:
  "sockets (storage (socket_leave_all sid w)) = sockets (storage w)"
  "users (storage (socket_leave_all sid w)) = users (storage w)"
  "rooms (storage (socket_leave_all sid w)) = rooms (storage w)"
  by (simp_all add: socket_leave_all_def)





























end
